theory Spec2Isabelle
  imports Main "HOL-Library.Word" "HOL-Library.Char_ord" "HOL-Library.List_Lexorder"
begin

section \<open>SoapySSDPEndpoint: the SSDP discovery endpoint of SoapyRemote\<close>

text \<open>
  A shallow embedding of \<^verbatim>\<open>common/SoapySSDPEndpoint.cpp\<close>. Every function of that file is
  a HOL function of the same name. The collaborators the file only calls (the socket, the
  HTTP header codec, the URL codec, host identification, the clock) are either small
  models marked as such or arguments of the functions that use them.
\<close>

subsection \<open>Constants of the source file\<close>

definition SSDP_MULTICAST_ADDR_IPV4 :: string where
  "SSDP_MULTICAST_ADDR_IPV4 = ''239.255.255.250''"

definition SSDP_MULTICAST_ADDR_IPV6 :: string where
  "SSDP_MULTICAST_ADDR_IPV6 = ''ff02::c''"

definition SSDP_UDP_PORT_NUMBER :: string where
  "SSDP_UDP_PORT_NUMBER = ''1900''"

definition SOAPY_REMOTE_TARGET :: string where
  "SOAPY_REMOTE_TARGET = ''urn:schemas-pothosware-com:service:soapyRemote:1''"

definition TRIGGER_TIMEOUT_SECONDS :: int where
  "TRIGGER_TIMEOUT_SECONDS = 60"

definition CACHE_DURATION_SECONDS :: int where
  "CACHE_DURATION_SECONDS = 120"

definition NTS_ALIVE :: string where
  "NTS_ALIVE = ''ssdp:alive''"

definition NTS_BYEBYE :: string where
  "NTS_BYEBYE = ''ssdp:byebye''"

text \<open>The literal \<^verbatim>\<open>"\"ssdp:discover\""\<close>: the token between two double quotes.\<close>

definition MAN_DISCOVER :: string where
  "MAN_DISCOVER = CHR 0x22 # ''ssdp:discover'' @ [CHR 0x22]"

subsection \<open>The clock\<close>

text \<open>
  A \<^verbatim>\<open>high_resolution_clock::time_point\<close> is a count of clock ticks, here nanoseconds as an
  unbounded integer; \<^verbatim>\<open>std::chrono::seconds(n)\<close> added to a time point is \<open>n\<close> times the ticks
  of one second. Every function that calls \<^verbatim>\<open>now()\<close> takes the value read as an argument.
\<close>

type_synonym time_point = int

definition seconds :: "int \<Rightarrow> int" where
  "seconds n = n * 1000000000"

subsection \<open>Library functions on std::string\<close>

datatype error = OutOfRange | InvalidArgument

text \<open>\<^verbatim>\<open>std::isspace\<close> in the C locale: space, and the control characters 9 to 13.\<close>

definition isspace :: "char \<Rightarrow> bool" where
  "isspace c = (c = CHR 0x20 \<or> c = CHR 0x09 \<or> c = CHR 0x0A \<or> c = CHR 0x0B
     \<or> c = CHR 0x0C \<or> c = CHR 0x0D)"

text \<open>\<^verbatim>\<open>s.find(sub)\<close>: the first position at which \<open>sub\<close> occurs in \<open>s\<close>; \<open>None\<close> is \<^verbatim>\<open>npos\<close>.\<close>

fun str_find :: "string \<Rightarrow> string \<Rightarrow> nat option" where
  "str_find [] sub = (if sub = [] then Some 0 else None)"
| "str_find (c # cs) sub =
     (if take (length sub) (c # cs) = sub then Some 0
      else map_option Suc (str_find cs sub))"

text \<open>\<^verbatim>\<open>s.substr(pos)\<close> throws when \<open>pos\<close> is beyond the size.\<close>

definition str_substr :: "string \<Rightarrow> nat \<Rightarrow> error + string" where
  "str_substr s pos = (if pos \<le> length s then Inr (drop pos s) else Inl OutOfRange)"

definition digit_val :: "char \<Rightarrow> nat option" where
  "digit_val c =
     (let n = (of_char c :: nat) in if 48 \<le> n \<and> n \<le> 57 then Some (n - 48) else None)"

fun digits_val :: "nat \<Rightarrow> string \<Rightarrow> nat" where
  "digits_val acc [] = acc"
| "digits_val acc (c # cs) =
     (case digit_val c of None \<Rightarrow> acc | Some d \<Rightarrow> digits_val (10 * acc + d) cs)"

text \<open>
  \<^verbatim>\<open>std::stoul(s)\<close> (base 10, \<^verbatim>\<open>unsigned long\<close> of 64 bits): leading white space is skipped, one
  sign is accepted, the longest run of digits is read. No digit throws
  \<^verbatim>\<open>std::invalid_argument\<close>, a magnitude beyond the type throws \<^verbatim>\<open>std::out_of_range\<close>, and a
  minus sign negates the magnitude in the unsigned type.
\<close>

definition stoul :: "string \<Rightarrow> error + 64 word" where
  "stoul s =
     (let s1 = dropWhile isspace s;
          neg = (s1 \<noteq> [] \<and> hd s1 = CHR ''-'');
          s2 = (if s1 \<noteq> [] \<and> (hd s1 = CHR ''-'' \<or> hd s1 = CHR ''+'') then tl s1 else s1)
      in if s2 = [] \<or> digit_val (hd s2) = None then Inl InvalidArgument
         else let v = digits_val 0 s2
              in if v \<ge> 2 ^ 64 then Inl OutOfRange
                 else Inr (if neg then - word_of_nat v else word_of_nat v))"

subsection \<open>The HTTP header\<close>

text \<open>
  Modelled from the spec: \<^verbatim>\<open>SoapyHTTPHeader\<close> (SoapyHTTPUtils) is not among the sources. The
  spec gives a header as a start line plus a field map; \<^verbatim>\<open>getField\<close> of a field that is
  absent is the empty string (the source tests \<^verbatim>\<open>getField(...).empty()\<close> for absence), and
  \<^verbatim>\<open>addField\<close> adds a field to a header under construction.
\<close>

record SoapyHTTPHeader =
  line0 :: string
  fieldMap :: "(string \<times> string) list"

definition newHeader :: "string \<Rightarrow> SoapyHTTPHeader" where
  "newHeader l = \<lparr>line0 = l, fieldMap = []\<rparr>"

definition getLine0 :: "SoapyHTTPHeader \<Rightarrow> string" where
  "getLine0 h = line0 h"

definition getField :: "SoapyHTTPHeader \<Rightarrow> string \<Rightarrow> string" where
  "getField h key = (case map_of (fieldMap h) key of None \<Rightarrow> [] | Some v \<Rightarrow> v)"

definition addField :: "string \<Rightarrow> string \<Rightarrow> SoapyHTTPHeader \<Rightarrow> SoapyHTTPHeader" where
  "addField key v h = h\<lparr>fieldMap := fieldMap h @ [(key, v)]\<rparr>"

subsection \<open>getCacheDuration\<close>

text \<open>
  The loop \<^verbatim>\<open>while (std::isspace(cacheControl.at(valuePos))) valuePos++\<close>. The first
  argument is the part of \<^verbatim>\<open>cacheControl\<close> from \<^verbatim>\<open>valuePos\<close> on: when it is empty,
  \<^verbatim>\<open>valuePos\<close> is the size of the string and \<^verbatim>\<open>at\<close> throws \<^verbatim>\<open>std::out_of_range\<close>; otherwise
  its head is \<^verbatim>\<open>cacheControl.at(valuePos)\<close>. The loop ends at the first position that holds
  no white space, or with the exception.
\<close>

fun skipSpaces :: "string \<Rightarrow> nat \<Rightarrow> error + nat" where
  "skipSpaces [] valuePos = Inl OutOfRange"
| "skipSpaces (c # cs) valuePos =
     (if isspace c then skipSpaces cs (valuePos + 1) else Inr valuePos)"

text \<open>
  The result type is \<^verbatim>\<open>int\<close> (32 bits): the \<^verbatim>\<open>unsigned long\<close> of \<^verbatim>\<open>stoul\<close> is narrowed to it.
  The \<^verbatim>\<open>try\<close> block holds the call of \<^verbatim>\<open>stoul\<close> only; \<^verbatim>\<open>at\<close> and \<^verbatim>\<open>substr\<close> are outside it.
\<close>

definition getCacheDuration :: "SoapyHTTPHeader \<Rightarrow> error + int" where
  "getCacheDuration header =
     (let cacheControl = getField header ''CACHE-CONTROL'' in
      if cacheControl = [] then Inr CACHE_DURATION_SECONDS
      else
        (case str_find cacheControl ''max-age'' of
           None \<Rightarrow> Inr CACHE_DURATION_SECONDS
         | Some maxAgePos \<Rightarrow>
            (case str_find cacheControl ''='' of
               None \<Rightarrow> Inr CACHE_DURATION_SECONDS
             | Some equalsPos \<Rightarrow>
                if maxAgePos > equalsPos then Inr CACHE_DURATION_SECONDS
                else
                  (case skipSpaces (drop (equalsPos + 1) cacheControl) (equalsPos + 1) of
                     Inl e \<Rightarrow> Inl e
                   | Inr valuePos \<Rightarrow>
                      (case str_substr cacheControl valuePos of
                         Inl e \<Rightarrow> Inl e
                       | Inr maxAge \<Rightarrow>
                          (case stoul maxAge of
                             Inl e \<Rightarrow> Inr CACHE_DURATION_SECONDS
                           | Inr v \<Rightarrow> Inr (sint (ucast v :: 32 word))))))))"

subsection \<open>Collaborators: locators, host identification\<close>

text \<open>
  A \<^verbatim>\<open>SoapyURL\<close> holds a scheme, a node and a service; the constructor of three strings
  stores them, \<^verbatim>\<open>getNode\<close> and \<^verbatim>\<open>getService\<close> read them, \<^verbatim>\<open>setScheme\<close> writes the scheme.
\<close>

record SoapyURL =
  urlScheme :: string
  urlNode :: string
  urlService :: string

definition getNode :: "SoapyURL \<Rightarrow> string" where
  "getNode u = urlNode u"

definition getService :: "SoapyURL \<Rightarrow> string" where
  "getService u = urlService u"

definition setScheme :: "string \<Rightarrow> SoapyURL \<Rightarrow> SoapyURL" where
  "setScheme sch u = u\<lparr>urlScheme := sch\<rparr>"

text \<open>
  What the source file takes from outside: the parser of a locator string
  (\<^verbatim>\<open>SoapyURL(const std::string &)\<close>) and its formatter (\<^verbatim>\<open>SoapyURL::toString\<close>), both of
  SoapyURLUtils which is not among the sources, the host name and the user agent of
  SoapyInfo, and the local time string that \<^verbatim>\<open>timeNowGMT\<close> formats. The functions below take
  them as one argument, and the theorems hold for every choice of them.
\<close>

record environment =
  parseURL :: "string \<Rightarrow> SoapyURL"
  toString :: "SoapyURL \<Rightarrow> string"
  getHostName :: string
  getUserAgent :: string
  timeNowGMT :: string

subsection \<open>std::map\<close>

text \<open>
  A \<^verbatim>\<open>std::map\<close> is the list of its entries in ascending order of the keys, which is the
  order of iteration. \<^verbatim>\<open>std::string\<close> keys compare byte by byte.
\<close>

definition map_ok :: "('k::linorder \<times> 'v) list \<Rightarrow> bool" where
  "map_ok m = sorted_wrt (<) (map fst m)"

text \<open>\<^verbatim>\<open>m.count(k)\<close>\<close>

definition map_count :: "('k \<times> 'v) list \<Rightarrow> 'k \<Rightarrow> nat" where
  "map_count m k = (case map_of m k of None \<Rightarrow> 0 | Some v \<Rightarrow> 1)"

text \<open>\<^verbatim>\<open>m[k] = v\<close>\<close>

fun map_assign :: "'k::linorder \<Rightarrow> 'v \<Rightarrow> ('k \<times> 'v) list \<Rightarrow> ('k \<times> 'v) list" where
  "map_assign k v [] = [(k, v)]"
| "map_assign k v ((k', v') # m) =
     (if k < k' then (k, v) # (k', v') # m
      else if k = k' then (k, v) # m
      else (k', v') # map_assign k v m)"

text \<open>\<^verbatim>\<open>m.erase(k)\<close>\<close>

fun map_erase :: "'k \<Rightarrow> ('k \<times> 'v) list \<Rightarrow> ('k \<times> 'v) list" where
  "map_erase k [] = []"
| "map_erase k ((k', v') # m) =
     (if k = k' then map_erase k m else (k', v') # map_erase k m)"

subsection \<open>The data of a handler and of the endpoint\<close>

type_synonym DiscoveredURLs = "(string \<times> (string \<times> time_point)) list"

text \<open>
  The socket of a handler is modelled by what the file does with it after the handler is
  set up: the datagrams handed to \<^verbatim>\<open>sendto\<close>, each a destination address and a header, in
  the order sent.
\<close>

type_synonym SoapyRPCSocket = "(string \<times> SoapyHTTPHeader) list"

text \<open>
  \<^verbatim>\<open>struct SoapySSDPEndpointData\<close>. The \<^verbatim>\<open>thread\<close> member has no field: a handler is in
  \<^verbatim>\<open>handlers\<close> exactly when its thread was started.
\<close>

record SoapySSDPEndpointData =
  ipVer :: int
  sock :: SoapyRPCSocket
  groupURL :: string
  lastTimeSearch :: time_point
  lastTimeNotify :: time_point
  usnToURL :: DiscoveredURLs

text \<open>The members of \<^verbatim>\<open>class SoapySSDPEndpoint\<close> that the file reads and writes.\<close>

record SoapySSDPEndpoint =
  serviceRegistered :: bool
  periodicSearchEnabled :: bool
  periodicNotifyEnabled :: bool
  doneFlag :: bool
  uuid :: string
  service :: string
  handlers :: "SoapySSDPEndpointData list"

subsection \<open>Sending\<close>

text \<open>
  The return value of \<^verbatim>\<open>sendto\<close> decides a log line only. In the headers below,
  \<^verbatim>\<open>std::to_string(CACHE_DURATION_SECONDS)\<close> is the string of the digits 120.
\<close>

definition sendHeader :: "SoapyRPCSocket \<Rightarrow> SoapyHTTPHeader \<Rightarrow> string \<Rightarrow> SoapyRPCSocket" where
  "sendHeader sk header addr = sk @ [(addr, header)]"

definition searchHeader :: "environment \<Rightarrow> SoapySSDPEndpointData \<Rightarrow> SoapyHTTPHeader" where
  "searchHeader env data =
     (let hostURL = setScheme [] (parseURL env (groupURL data));
          h0 = newHeader ''M-SEARCH * HTTP/1.1'';
          h1 = addField ''HOST'' (toString env hostURL) h0;
          h2 = addField ''MAN'' MAN_DISCOVER h1;
          h3 = addField ''MX'' ''2'' h2;
          h4 = addField ''ST'' SOAPY_REMOTE_TARGET h3;
          h5 = addField ''USER-AGENT'' (getUserAgent env) h4
      in h5)"

definition sendSearchHeader ::
  "environment \<Rightarrow> time_point \<Rightarrow> SoapySSDPEndpointData \<Rightarrow> SoapySSDPEndpointData" where
  "sendSearchHeader env tnow data =
     data\<lparr>sock := sendHeader (sock data) (searchHeader env data) (groupURL data),
          lastTimeSearch := tnow\<rparr>"

definition serviceLocation :: "environment \<Rightarrow> SoapySSDPEndpoint \<Rightarrow> string" where
  "serviceLocation env ep =
     toString env \<lparr>urlScheme = ''tcp'', urlNode = getHostName env, urlService = service ep\<rparr>"

definition serviceUSN :: "SoapySSDPEndpoint \<Rightarrow> string" where
  "serviceUSN ep = ''uuid:'' @ uuid ep @ ''::'' @ SOAPY_REMOTE_TARGET"

definition notifyHeader ::
  "environment \<Rightarrow> SoapySSDPEndpoint \<Rightarrow> SoapySSDPEndpointData \<Rightarrow> string \<Rightarrow> SoapyHTTPHeader" where
  "notifyHeader env ep data nts =
     (let hostURL = setScheme [] (parseURL env (groupURL data));
          h0 = newHeader ''NOTIFY * HTTP/1.1'';
          h1 = addField ''HOST'' (toString env hostURL) h0;
          h2 = (if nts = NTS_ALIVE
                then addField ''LOCATION'' (serviceLocation env ep)
                       (addField ''CACHE-CONTROL'' (''max-age='' @ ''120'') h1)
                else h1);
          h3 = addField ''SERVER'' (getUserAgent env) h2;
          h4 = addField ''NT'' SOAPY_REMOTE_TARGET h3;
          h5 = addField ''USN'' (serviceUSN ep) h4;
          h6 = addField ''NTS'' nts h5
      in h6)"

definition sendNotifyHeader ::
  "environment \<Rightarrow> SoapySSDPEndpoint \<Rightarrow> time_point \<Rightarrow> SoapySSDPEndpointData \<Rightarrow> string
     \<Rightarrow> SoapySSDPEndpointData" where
  "sendNotifyHeader env ep tnow data nts =
     (if \<not> serviceRegistered ep then data
      else data\<lparr>sock := sendHeader (sock data) (notifyHeader env ep data nts) (groupURL data),
                lastTimeNotify := tnow\<rparr>)"

subsection \<open>Handling received messages\<close>

definition searchResponse :: "environment \<Rightarrow> SoapySSDPEndpoint \<Rightarrow> SoapyHTTPHeader" where
  "searchResponse env ep =
     (let r0 = newHeader ''HTTP/1.1 200 OK'';
          r1 = addField ''CACHE-CONTROL'' (''max-age='' @ ''120'') r0;
          r2 = addField ''DATE'' (timeNowGMT env) r1;
          r3 = addField ''EXT'' [] r2;
          r4 = addField ''LOCATION'' (serviceLocation env ep) r3;
          r5 = addField ''SERVER'' (getUserAgent env) r4;
          r6 = addField ''ST'' SOAPY_REMOTE_TARGET r5;
          r7 = addField ''USN'' (serviceUSN ep) r6
      in r7)"

definition handleSearchRequest ::
  "environment \<Rightarrow> SoapySSDPEndpoint \<Rightarrow> time_point \<Rightarrow> SoapySSDPEndpointData \<Rightarrow> SoapyHTTPHeader
     \<Rightarrow> string \<Rightarrow> SoapySSDPEndpointData" where
  "handleSearchRequest env ep tnow data request recvAddr =
     (if \<not> serviceRegistered ep then data
      else if getField request ''MAN'' \<noteq> MAN_DISCOVER then data
      else
        let st = getField request ''ST'';
            stForUs = (st = ''ssdp:all'' \<or> st = SOAPY_REMOTE_TARGET \<or> st = ''uuid:'' @ uuid ep)
        in if \<not> stForUs then data
           else
             let data1 = data\<lparr>sock := sendHeader (sock data) (searchResponse env ep) recvAddr\<rparr>
             in sendNotifyHeader env ep tnow data1 NTS_ALIVE)"

definition handleRegisterService ::
  "environment \<Rightarrow> time_point \<Rightarrow> SoapySSDPEndpointData \<Rightarrow> SoapyHTTPHeader \<Rightarrow> string
     \<Rightarrow> error + SoapySSDPEndpointData" where
  "handleRegisterService env tnow data header recvAddr =
     (let usn = getField header ''USN'' in
      if usn = [] then Inr data
      else if getField header ''NTS'' = NTS_BYEBYE
      then Inr (data\<lparr>usnToURL := map_erase usn (usnToURL data)\<rparr>)
      else
        let location = getField header ''LOCATION'' in
        if location = [] then Inr data
        else
          let serverURL = \<lparr>urlScheme = ''tcp'',
                             urlNode = getNode (parseURL env recvAddr),
                             urlService = getService (parseURL env location)\<rparr>
          in case getCacheDuration header of
               Inl e \<Rightarrow> Inl e
             | Inr duration \<Rightarrow>
                 let expires = tnow + seconds duration
                 in Inr (data\<lparr>usnToURL :=
                      map_assign usn (toString env serverURL, expires) (usnToURL data)\<rparr>))"

definition handleSearchResponse ::
  "environment \<Rightarrow> time_point \<Rightarrow> SoapySSDPEndpointData \<Rightarrow> SoapyHTTPHeader \<Rightarrow> string
     \<Rightarrow> error + SoapySSDPEndpointData" where
  "handleSearchResponse env tnow data header recvAddr =
     (if getField header ''ST'' \<noteq> SOAPY_REMOTE_TARGET then Inr data
      else handleRegisterService env tnow data header recvAddr)"

definition handleNotifyRequest ::
  "environment \<Rightarrow> time_point \<Rightarrow> SoapySSDPEndpointData \<Rightarrow> SoapyHTTPHeader \<Rightarrow> string
     \<Rightarrow> error + SoapySSDPEndpointData" where
  "handleNotifyRequest env tnow data header recvAddr =
     (if getField header ''NT'' \<noteq> SOAPY_REMOTE_TARGET then Inr data
      else handleRegisterService env tnow data header recvAddr)"

subsection \<open>One iteration of handlerLoop\<close>

text \<open>
  What \<^verbatim>\<open>selectRecv\<close> and \<^verbatim>\<open>recvfrom\<close> give in one iteration: no datagram within the
  timeout, or the return value of \<^verbatim>\<open>recvfrom\<close> with the header parsed from the buffer and
  the address of the sender.
\<close>

datatype received = Timeout | Received int SoapyHTTPHeader string

text \<open>
  An iteration ends the thread when \<^verbatim>\<open>recvfrom\<close> fails (the \<^verbatim>\<open>return\<close> in the loop) or when
  an exception leaves a handler function: nothing in the loop catches it.
\<close>

datatype loop_exit = RecvFailed | Uncaught error

text \<open>The loop under the comment "remove old cache entries".\<close>

fun removeOldCacheEntries :: "time_point \<Rightarrow> DiscoveredURLs \<Rightarrow> DiscoveredURLs" where
  "removeOldCacheEntries timeNow [] = []"
| "removeOldCacheEntries timeNow ((usn, (url, expires)) # rest) =
     (if expires > timeNow then (usn, (url, expires)) # removeOldCacheEntries timeNow rest
      else removeOldCacheEntries timeNow rest)"

text \<open>
  The three tests of the start line, in the order of the source. The clock is read at most
  once while a datagram is handled (\<open>tRecv\<close>).
\<close>

definition dispatch ::
  "environment \<Rightarrow> SoapySSDPEndpoint \<Rightarrow> time_point \<Rightarrow> SoapySSDPEndpointData \<Rightarrow> SoapyHTTPHeader
     \<Rightarrow> string \<Rightarrow> error + SoapySSDPEndpointData" where
  "dispatch env ep tRecv data header recvAddr =
     (let data1 = (if getLine0 header = ''M-SEARCH * HTTP/1.1''
                   then handleSearchRequest env ep tRecv data header recvAddr else data)
      in case (if getLine0 header = ''HTTP/1.1 200 OK''
               then handleSearchResponse env tRecv data1 header recvAddr else Inr data1) of
           Inl e \<Rightarrow> Inl e
         | Inr data2 \<Rightarrow>
             (if getLine0 header = ''NOTIFY * HTTP/1.1''
              then handleNotifyRequest env tRecv data2 header recvAddr else Inr data2))"

text \<open>
  The part of the loop body that runs in every iteration, from the reading of \<^verbatim>\<open>timeNow\<close>
  on. \<open>tSearch\<close> and \<open>tNotify\<close> are the clock values read by \<^verbatim>\<open>sendSearchHeader\<close> and
  \<^verbatim>\<open>sendNotifyHeader\<close> when the triggers call them.
\<close>

definition sweepAndTrigger ::
  "environment \<Rightarrow> SoapySSDPEndpoint \<Rightarrow> time_point \<Rightarrow> time_point \<Rightarrow> time_point
     \<Rightarrow> SoapySSDPEndpointData \<Rightarrow> SoapySSDPEndpointData" where
  "sweepAndTrigger env ep timeNow tSearch tNotify data =
     (let triggerExpired = timeNow + seconds TRIGGER_TIMEOUT_SECONDS;
          data1 = data\<lparr>usnToURL := removeOldCacheEntries timeNow (usnToURL data)\<rparr>;
          data2 = (if periodicSearchEnabled ep \<and> lastTimeSearch data1 > triggerExpired
                   then sendSearchHeader env tSearch data1 else data1);
          data3 = (if periodicNotifyEnabled ep \<and> lastTimeNotify data2 > triggerExpired
                   then sendNotifyHeader env ep tNotify data2 NTS_ALIVE else data2)
      in data3)"

definition handlerLoopBody ::
  "environment \<Rightarrow> SoapySSDPEndpoint \<Rightarrow> received \<Rightarrow> time_point \<Rightarrow> time_point \<Rightarrow> time_point
     \<Rightarrow> time_point \<Rightarrow> SoapySSDPEndpointData \<Rightarrow> loop_exit + SoapySSDPEndpointData" where
  "handlerLoopBody env ep rx tRecv timeNow tSearch tNotify data =
     (case rx of
        Timeout \<Rightarrow> Inr (sweepAndTrigger env ep timeNow tSearch tNotify data)
      | Received ret header recvAddr \<Rightarrow>
          if ret < 0 then Inl RecvFailed
          else
            (case dispatch env ep tRecv data header recvAddr of
               Inl e \<Rightarrow> Inl (Uncaught e)
             | Inr data1 \<Rightarrow> Inr (sweepAndTrigger env ep timeNow tSearch tNotify data1)))"

subsection \<open>The public operations\<close>

definition registerService :: "string \<Rightarrow> string \<Rightarrow> SoapySSDPEndpoint \<Rightarrow> SoapySSDPEndpoint" where
  "registerService newUuid newService ep =
     ep\<lparr>serviceRegistered := True, uuid := newUuid, service := newService\<rparr>"

text \<open>
  The loops over \<^verbatim>\<open>handlers\<close> read the clock once for each handler: \<open>tnow i\<close> is the value
  read for the handler at position \<open>i\<close>.
\<close>

definition enablePeriodicSearch ::
  "environment \<Rightarrow> (nat \<Rightarrow> time_point) \<Rightarrow> bool \<Rightarrow> SoapySSDPEndpoint \<Rightarrow> SoapySSDPEndpoint" where
  "enablePeriodicSearch env tnow enable ep =
     (let ep1 = ep\<lparr>periodicSearchEnabled := enable\<rparr>
      in ep1\<lparr>handlers :=
           map (\<lambda>(i, data). sendSearchHeader env (tnow i) data) (enumerate 0 (handlers ep1))\<rparr>)"

definition enablePeriodicNotify ::
  "environment \<Rightarrow> (nat \<Rightarrow> time_point) \<Rightarrow> bool \<Rightarrow> SoapySSDPEndpoint \<Rightarrow> SoapySSDPEndpoint" where
  "enablePeriodicNotify env tnow enable ep =
     (let ep1 = ep\<lparr>periodicNotifyEnabled := enable\<rparr>
      in ep1\<lparr>handlers :=
           map (\<lambda>(i, data). sendNotifyHeader env ep1 (tnow i) data NTS_ALIVE)
             (enumerate 0 (handlers ep1))\<rparr>)"

text \<open>
  \<^verbatim>\<open>getServerURLs\<close>. The body of the inner loop, for one entry of a handler: the entry is
  skipped when its USN is present already and the handler is not of the wanted version.
\<close>

definition mergeEntry ::
  "bool \<Rightarrow> string \<times> (string \<times> time_point) \<Rightarrow> DiscoveredURLs \<Rightarrow> DiscoveredURLs" where
  "mergeEntry ipVerMatch pair acc =
     (if map_count acc (fst pair) \<noteq> 0 \<and> \<not> ipVerMatch then acc
      else map_assign (fst pair) (snd pair) acc)"

text \<open>The inner loop, over the entries of one handler in the order of its map.\<close>

definition mergeURLs :: "bool \<Rightarrow> DiscoveredURLs \<Rightarrow> DiscoveredURLs \<Rightarrow> DiscoveredURLs" where
  "mergeURLs ipVerMatch entries acc = fold (mergeEntry ipVerMatch) entries acc"

text \<open>The body of the outer loop, for one handler.\<close>

definition mergeHandler ::
  "int \<Rightarrow> bool \<Rightarrow> SoapySSDPEndpointData \<Rightarrow> DiscoveredURLs \<Rightarrow> DiscoveredURLs" where
  "mergeHandler ipVersion only data acc =
     (let ipVerMatch = (ipVer data = ipVersion)
      in if only \<and> \<not> ipVerMatch then acc
         else mergeURLs ipVerMatch (usnToURL data) acc)"

text \<open>The outer loop: the map \<^verbatim>\<open>usnPrefToURL\<close> when the loop over \<^verbatim>\<open>handlers\<close> is left.\<close>

definition usnPrefToURL :: "SoapySSDPEndpoint \<Rightarrow> int \<Rightarrow> bool \<Rightarrow> DiscoveredURLs" where
  "usnPrefToURL ep ipVersion only = fold (mergeHandler ipVersion only) (handlers ep) []"

text \<open>The copy of the locators into the result vector.\<close>

definition getServerURLs :: "SoapySSDPEndpoint \<Rightarrow> int \<Rightarrow> bool \<Rightarrow> string list" where
  "getServerURLs ep ipVersion only = map (\<lambda>pair. fst (snd pair)) (usnPrefToURL ep ipVersion only)"

subsection \<open>Construction\<close>

text \<open>
  What one call of \<^verbatim>\<open>spawnHandler\<close> does besides writing the blacklist and \<^verbatim>\<open>handlers\<close>, in
  the order done: the allocation of the handler data (with its socket object), the calls
  of \<^verbatim>\<open>multicastJoin\<close> and \<^verbatim>\<open>bind\<close> with their locator, the deletion of the data, the start
  of the thread.
\<close>

datatype effect = NewData | MulticastJoin string | Bind string | DeleteData | NewThread

text \<open>
  The state of the process: the static set \<^verbatim>\<open>blacklistedGroups\<close> of \<^verbatim>\<open>spawnHandler\<close>, and the
  effects of all calls so far.
\<close>

record process =
  blacklistedGroups :: "string set"
  effects :: "effect list"

text \<open>
  \<open>joinRet\<close> and \<open>bindRet\<close> are what \<^verbatim>\<open>multicastJoin\<close> and \<^verbatim>\<open>bind\<close> return in this call when
  they are called. A new handler data has the epoch of the clock in both time points and an
  empty map.
\<close>

definition spawnHandler ::
  "environment \<Rightarrow> int \<Rightarrow> int \<Rightarrow> string \<Rightarrow> string \<Rightarrow> int
     \<Rightarrow> process \<times> SoapySSDPEndpoint \<Rightarrow> process \<times> SoapySSDPEndpoint" where
  "spawnHandler env joinRet bindRet bindAddr groupAddr ipVersion st =
     (let p = fst st; ep = snd st in
      if groupAddr \<in> blacklistedGroups p then (p, ep)
      else
        let groupURL = toString env
              \<lparr>urlScheme = ''udp'', urlNode = groupAddr, urlService = SSDP_UDP_PORT_NUMBER\<rparr>
        in if joinRet \<noteq> 0
           then (p\<lparr>blacklistedGroups := insert groupAddr (blacklistedGroups p),
                   effects := effects p @ [NewData, MulticastJoin groupURL, DeleteData]\<rparr>, ep)
           else
             let bindURL = toString env
                   \<lparr>urlScheme = ''udp'', urlNode = bindAddr, urlService = SSDP_UDP_PORT_NUMBER\<rparr>
             in if bindRet \<noteq> 0
                then (p\<lparr>effects := effects p
                          @ [NewData, MulticastJoin groupURL, Bind bindURL, DeleteData]\<rparr>, ep)
                else (p\<lparr>effects := effects p
                          @ [NewData, MulticastJoin groupURL, Bind bindURL, NewThread]\<rparr>,
                      ep\<lparr>handlers := handlers ep @
                          [\<lparr>ipVer = ipVersion, sock = [], groupURL = groupURL,
                            lastTimeSearch = 0, lastTimeNotify = 0, usnToURL = []\<rparr>]\<rparr>))"

text \<open>
  The constructor. \<open>isIPv6Supported\<close> is the outcome of the probe socket; \<open>ret4\<close> and \<open>ret6\<close>
  are the return values of join and bind for the two handlers.
\<close>

definition newEndpoint :: "SoapySSDPEndpoint" where
  "newEndpoint = \<lparr>serviceRegistered = False, periodicSearchEnabled = False,
     periodicNotifyEnabled = False, doneFlag = False, uuid = [], service = [], handlers = []\<rparr>"

definition SoapySSDPEndpoint_ctor ::
  "environment \<Rightarrow> bool \<Rightarrow> int \<times> int \<Rightarrow> int \<times> int \<Rightarrow> process \<Rightarrow> process \<times> SoapySSDPEndpoint" where
  "SoapySSDPEndpoint_ctor env isIPv6Supported ret4 ret6 p =
     (let st1 = spawnHandler env (fst ret4) (snd ret4) ''0.0.0.0'' SSDP_MULTICAST_ADDR_IPV4 4
                  (p, newEndpoint)
      in if isIPv6Supported
         then spawnHandler env (fst ret6) (snd ret6) ''::'' SSDP_MULTICAST_ADDR_IPV6 6 st1
         else st1)"

text \<open>A sequence of calls of \<^verbatim>\<open>spawnHandler\<close> in one process, each with its own outcomes.\<close>

type_synonym attempt = "int \<times> int \<times> string \<times> string \<times> int"

definition spawnAttempt ::
  "environment \<Rightarrow> attempt \<Rightarrow> process \<times> SoapySSDPEndpoint \<Rightarrow> process \<times> SoapySSDPEndpoint" where
  "spawnAttempt env a st =
     spawnHandler env (fst a) (fst (snd a)) (fst (snd (snd a))) (fst (snd (snd (snd a))))
       (snd (snd (snd (snd a)))) st"

definition spawnAttempts ::
  "environment \<Rightarrow> attempt list \<Rightarrow> process \<times> SoapySSDPEndpoint \<Rightarrow> process \<times> SoapySSDPEndpoint" where
  "spawnAttempts env as st = fold (spawnAttempt env) as st"

subsection \<open>Runs of an endpoint\<close>

text \<open>
  What can happen to an endpoint between its construction and its destruction: a call of
  one of the four public operations, or an iteration of the loop of the handler at
  position \<open>i\<close>. An iteration that ends the thread (a failed \<^verbatim>\<open>recvfrom\<close>, or an exception,
  which is raised before anything is written) leaves the endpoint as it was.
\<close>

datatype operation =
    RegisterService string string
  | EnablePeriodicSearch "nat \<Rightarrow> time_point" bool
  | EnablePeriodicNotify "nat \<Rightarrow> time_point" bool
  | GetServerURLs int bool
  | HandlerLoopBody nat received time_point time_point time_point time_point

fun isRegisterService :: "operation \<Rightarrow> bool" where
  "isRegisterService (RegisterService u s) = True"
| "isRegisterService (EnablePeriodicSearch tnow enable) = False"
| "isRegisterService (EnablePeriodicNotify tnow enable) = False"
| "isRegisterService (GetServerURLs v only) = False"
| "isRegisterService (HandlerLoopBody i rx tRecv timeNow tSearch tNotify) = False"

fun perform :: "environment \<Rightarrow> operation \<Rightarrow> SoapySSDPEndpoint \<Rightarrow> SoapySSDPEndpoint" where
  "perform env (RegisterService u s) ep = registerService u s ep"
| "perform env (EnablePeriodicSearch tnow enable) ep = enablePeriodicSearch env tnow enable ep"
| "perform env (EnablePeriodicNotify tnow enable) ep = enablePeriodicNotify env tnow enable ep"
| "perform env (GetServerURLs v only) ep = ep"
| "perform env (HandlerLoopBody i rx tRecv timeNow tSearch tNotify) ep =
     (if i < length (handlers ep)
      then (case handlerLoopBody env ep rx tRecv timeNow tSearch tNotify (handlers ep ! i) of
              Inl x \<Rightarrow> ep
            | Inr data \<Rightarrow> ep\<lparr>handlers := (handlers ep)[i := data]\<rparr>)
      else ep)"

subsection \<open>Predicates of the statements\<close>

text \<open>Every entry of a map expires strictly after \<open>now\<close>.\<close>

definition expiresAfter :: "time_point \<Rightarrow> DiscoveredURLs \<Rightarrow> bool" where
  "expiresAfter now m = list_all (\<lambda>pair. now < snd (snd pair)) m"

text \<open>The locator strings of the entries of a map, in the order of the map.\<close>

definition locators :: "DiscoveredURLs \<Rightarrow> string list" where
  "locators m = map (\<lambda>pair. fst (snd pair)) m"

text \<open>
  What the data structures of the source guarantee of an endpoint: each cache is a
  \<^verbatim>\<open>std::map\<close>, and the constructor starts at most one handler for an address family.
\<close>

definition endpoint_ok :: "SoapySSDPEndpoint \<Rightarrow> bool" where
  "endpoint_ok ep =
     (list_all (\<lambda>data. map_ok (usnToURL data)) (handlers ep) \<and> distinct (map ipVer (handlers ep)))"

subsection \<open>A concrete environment and concrete states\<close>

text \<open>
  Modelled from the spec: the locator codec of SoapyURLUtils is not among the sources. The
  spec describes it as parsing a locator into scheme, host and port and rendering it back,
  with \<^verbatim>\<open>tcp://X:9999\<close> for scheme tcp, host X and port 9999; a host that contains a colon
  is written in brackets. This instance is used for the concrete examples only.
\<close>

definition simpleToString :: "SoapyURL \<Rightarrow> string" where
  "simpleToString u =
     (if urlScheme u = [] then [] else urlScheme u @ ''://'')
       @ (if CHR '':'' \<in> set (urlNode u) then ''['' @ urlNode u @ '']'' else urlNode u)
       @ (if urlService u = [] then [] else '':'' @ urlService u)"

definition simpleParseURL :: "string \<Rightarrow> SoapyURL" where
  "simpleParseURL url =
     (let schemeEnd = str_find url ''://'';
          sch = (case schemeEnd of None \<Rightarrow> [] | Some i \<Rightarrow> take i url);
          urlRest = (case schemeEnd of None \<Rightarrow> url | Some i \<Rightarrow> drop (i + 3) url)
      in if take 1 urlRest = ''[''
         then \<lparr>urlScheme = sch,
               urlNode = takeWhile (\<lambda>c. c \<noteq> CHR '']'') (drop 1 urlRest),
               urlService = drop 2 (dropWhile (\<lambda>c. c \<noteq> CHR '']'') urlRest)\<rparr>
         else \<lparr>urlScheme = sch,
               urlNode = takeWhile (\<lambda>c. c \<noteq> CHR '':'') urlRest,
               urlService = drop 1 (dropWhile (\<lambda>c. c \<noteq> CHR '':'') urlRest)\<rparr>)"

definition exampleEnv :: environment where
  "exampleEnv = \<lparr>parseURL = simpleParseURL, toString = simpleToString, getHostName = ''X'',
     getUserAgent = ''UA'', timeNowGMT = ''Thu Jan  1 00:00:00 1970 UTC''\<rparr>"

text \<open>The IPv4 handler as \<^verbatim>\<open>spawnHandler\<close> makes it, and the IPv6 one.\<close>

definition handler4 :: SoapySSDPEndpointData where
  "handler4 = \<lparr>ipVer = 4, sock = [], groupURL = ''udp://239.255.255.250:1900'',
     lastTimeSearch = 0, lastTimeNotify = 0, usnToURL = []\<rparr>"

definition handler6 :: SoapySSDPEndpointData where
  "handler6 = \<lparr>ipVer = 6, sock = [], groupURL = ''udp://[ff02::c]:1900'',
     lastTimeSearch = 0, lastTimeNotify = 0, usnToURL = []\<rparr>"

text \<open>An endpoint with the IPv4 handler and the service of scenario A registered.\<close>

definition endpointX :: SoapySSDPEndpoint where
  "endpointX = registerService ''U'' ''9999'' (newEndpoint\<lparr>handlers := [handler4]\<rparr>)"

text \<open>
  The alive announcement of a peer P, with the given value of its CACHE-CONTROL field and a
  LOCATION whose host is not the host the datagram comes from.
\<close>

definition peerUSN :: string where
  "peerUSN = ''uuid:P::urn:schemas-pothosware-com:service:soapyRemote:1''"

definition notifyFromPeer :: "string \<Rightarrow> SoapyHTTPHeader" where
  "notifyFromPeer cacheControl =
     \<lparr>line0 = ''NOTIFY * HTTP/1.1'',
      fieldMap = [(''HOST'', ''239.255.255.250:1900''), (''CACHE-CONTROL'', cacheControl),
        (''LOCATION'', ''tcp://spoofed:7777''), (''NT'', SOAPY_REMOTE_TARGET),
        (''USN'', peerUSN), (''NTS'', NTS_ALIVE)]\<rparr>"

text \<open>The departure announcement of the same peer, and an announcement without USN.\<close>

definition byebyeFromPeer :: SoapyHTTPHeader where
  "byebyeFromPeer =
     \<lparr>line0 = ''NOTIFY * HTTP/1.1'',
      fieldMap = [(''HOST'', ''239.255.255.250:1900''), (''NT'', SOAPY_REMOTE_TARGET),
        (''USN'', peerUSN), (''NTS'', NTS_BYEBYE)]\<rparr>"

definition notifyWithoutUSN :: SoapyHTTPHeader where
  "notifyWithoutUSN =
     \<lparr>line0 = ''NOTIFY * HTTP/1.1'',
      fieldMap = [(''HOST'', ''239.255.255.250:1900''), (''NT'', SOAPY_REMOTE_TARGET),
        (''NTS'', NTS_BYEBYE)]\<rparr>"

text \<open>A search request for the well-known target, as \<^verbatim>\<open>sendSearchHeader\<close> builds it.\<close>

definition searchFromPeer :: SoapyHTTPHeader where
  "searchFromPeer = searchHeader exampleEnv handler4"

text \<open>
  Two search requests that differ from it in the ST field only: one searches for the USN
  of the service that \<open>endpointX\<close> has registered, the other for \<^verbatim>\<open>uuid:\<close> followed by its
  identity.
\<close>

definition searchForUSN :: SoapyHTTPHeader where
  "searchForUSN =
     \<lparr>line0 = ''M-SEARCH * HTTP/1.1'',
      fieldMap = [(''HOST'', ''239.255.255.250:1900''), (''MAN'', MAN_DISCOVER), (''MX'', ''2''),
        (''ST'', ''uuid:U::urn:schemas-pothosware-com:service:soapyRemote:1''),
        (''USER-AGENT'', ''UA'')]\<rparr>"

definition searchForIdentity :: SoapyHTTPHeader where
  "searchForIdentity =
     \<lparr>line0 = ''M-SEARCH * HTTP/1.1'',
      fieldMap = [(''HOST'', ''239.255.255.250:1900''), (''MAN'', MAN_DISCOVER), (''MX'', ''2''),
        (''ST'', ''uuid:U''), (''USER-AGENT'', ''UA'')]\<rparr>"

text \<open>
  An endpoint with both handlers after some announcements: peer A was heard over IPv4 only,
  peer C over IPv6 only, peer B over both.
\<close>

definition endpointTwoFamilies :: SoapySSDPEndpoint where
  "endpointTwoFamilies = newEndpoint\<lparr>handlers :=
     [handler4\<lparr>usnToURL := [(''uuid:A'', (''tcp://10.0.0.1:1'', 100)),
                              (''uuid:B'', (''tcp://10.0.0.2:2'', 100))]\<rparr>,
      handler6\<lparr>usnToURL := [(''uuid:B'', (''tcp://[fe80::2]:2'', 100)),
                              (''uuid:C'', (''tcp://[fe80::3]:3'', 100))]\<rparr>]\<rparr>"

section \<open>Properties\<close>

subsection \<open>The periodic triggers\<close>

text \<open>
  C1. The claim: in an iteration of the handler loop in which periodic search is enabled
  and at least 60 seconds have passed since \<^verbatim>\<open>lastTimeSearch\<close>, a search message is sent, and
  likewise an alive announcement for periodic notify and \<^verbatim>\<open>lastTimeNotify\<close>. The source
  tests \<^verbatim>\<open>lastTimeSearch > timeNow + 60 s\<close>. Evaluated on a handler that last sent at time
  0, 100 seconds later, with both flags set and a service registered: the iteration
  returns the handler as it was, so nothing is handed to the socket and neither time is
  updated.
\<close>

theorem handlerLoopBody_trigger_silent:
  "handlerLoopBody env
     (newEndpoint\<lparr>serviceRegistered := True, periodicSearchEnabled := True,
        periodicNotifyEnabled := True, handlers := [handler4]\<rparr>)
     Timeout tRecv (seconds 100) tSearch tNotify handler4 = Inr handler4"
  by (simp add: handlerLoopBody_def sweepAndTrigger_def handler4_def newEndpoint_def seconds_def
      TRIGGER_TIMEOUT_SECONDS_def)

text \<open>
  More generally the triggers stay silent in every iteration whose \<^verbatim>\<open>timeNow\<close> is not more
  than 60 seconds before the times of the last sends, so in every iteration that comes
  after them.
\<close>

lemma sweepAndTrigger_silent:
  assumes "lastTimeSearch data \<le> timeNow + seconds 60"
    and "lastTimeNotify data \<le> timeNow + seconds 60"
  shows "sock (sweepAndTrigger env ep timeNow tSearch tNotify data) = sock data"
  using assms by (simp add: sweepAndTrigger_def Let_def TRIGGER_TIMEOUT_SECONDS_def)

subsection \<open>The cache duration\<close>

text \<open>
  C2. The claim: \<^verbatim>\<open>getCacheDuration\<close> is total and never raises: it returns the parsed
  max-age or the default of 120 seconds. Evaluated on a CACHE-CONTROL field that ends with
  the equals sign: \<^verbatim>\<open>at\<close> is called with the size of the string and throws
  \<^verbatim>\<open>std::out_of_range\<close> outside the \<^verbatim>\<open>try\<close> block; in the handler loop the exception of such
  an announcement is caught nowhere.
\<close>

theorem getCacheDuration_raises:
  "getCacheDuration (addField ''CACHE-CONTROL'' ''max-age='' (newHeader ''NOTIFY * HTTP/1.1''))
     = Inl OutOfRange
   \<and> getCacheDuration (notifyFromPeer ''max-age='') = Inl OutOfRange
   \<and> handlerLoopBody exampleEnv endpointX
        (Received 200 (notifyFromPeer ''max-age='') ''udp://10.0.0.2:1900'') 0 0 0 0 handler4
       = Inl (Uncaught OutOfRange)"
  by (simp add: getCacheDuration_def getField_def addField_def newHeader_def notifyFromPeer_def peerUSN_def
      handlerLoopBody_def dispatch_def getLine0_def handleNotifyRequest_def
      handleRegisterService_def SOAPY_REMOTE_TARGET_def NTS_ALIVE_def NTS_BYEBYE_def)

subsection \<open>The operations on std::map\<close>

lemma map_erase_filter: "map_erase k m = filter (\<lambda>p. fst p \<noteq> k) m"
  by (induction m) auto

lemma map_of_map_erase: "map_of (map_erase k m) = (map_of m)(k := None)"
  by (induction m) (auto simp: fun_eq_iff)

lemma map_of_map_assign: "map_of (map_assign k v m) = (map_of m)(k \<mapsto> v)"
  by (induction m) (auto simp: fun_eq_iff)

lemma set_map_assign_keys: "fst ` set (map_assign k v m) = insert k (fst ` set m)"
  by (simp add: dom_map_of_conv_image_fst [symmetric] map_of_map_assign)

lemma map_ok_map_assign: "map_ok m \<Longrightarrow> map_ok (map_assign k v m)"
proof (induction m)
  case Nil
  then show ?case by (simp add: map_ok_def)
next
  case (Cons p m)
  obtain k' v' where p: "p = (k', v')" by (cases p)
  from Cons.prems have tl_ok: "map_ok m" and lt: "\<forall>x\<in>set m. k' < fst x"
    by (auto simp: map_ok_def p)
  have "\<forall>x\<in>fst ` set (map_assign k v m). k' < x" if "k' < k"
    using that lt by (auto simp: set_map_assign_keys)
  with Cons.IH [OF tl_ok] Cons.prems show ?case
    by (auto simp: map_ok_def p)
qed

subsection \<open>Enabling the periodic triggers\<close>

lemma map_enumerate_proj:
  assumes "\<And>i x. f (g i x) = h x"
  shows "map f (map (\<lambda>(i, x). g i x) (enumerate n xs)) = map h xs"
  using assms by (induction xs arbitrary: n) auto

text \<open>
  C3, as the code has it. \<^verbatim>\<open>enablePeriodicSearch\<close> and \<^verbatim>\<open>enablePeriodicNotify\<close> set their flag
  to the given value. For either value, \<^verbatim>\<open>enablePeriodicSearch\<close> hands one search message to
  the socket of every handler, addressed to the group of the handler;
  \<^verbatim>\<open>enablePeriodicNotify\<close> hands one alive announcement to the socket of every handler when a
  service is registered, and nothing when no service is registered.
\<close>

theorem enablePeriodic_sends_for_either_value:
  "periodicSearchEnabled (enablePeriodicSearch env tnow enable ep) = enable
   \<and> map sock (handlers (enablePeriodicSearch env tnow enable ep))
       = map (\<lambda>data. sock data @ [(groupURL data, searchHeader env data)]) (handlers ep)
   \<and> periodicNotifyEnabled (enablePeriodicNotify env tnow enable ep) = enable
   \<and> map sock (handlers (enablePeriodicNotify env tnow enable ep))
       = map (\<lambda>data. if serviceRegistered ep
                      then sock data @ [(groupURL data, notifyHeader env ep data NTS_ALIVE)]
                      else sock data) (handlers ep)
   \<and> getLine0 (searchHeader env data) = ''M-SEARCH * HTTP/1.1''
   \<and> getLine0 (notifyHeader env ep data NTS_ALIVE) = ''NOTIFY * HTTP/1.1''
   \<and> getField (notifyHeader env ep data NTS_ALIVE) ''NTS'' = NTS_ALIVE"
proof -
  have nh: "notifyHeader env (ep\<lparr>periodicNotifyEnabled := enable\<rparr>) d nts = notifyHeader env ep d nts"
    for d nts
    by (simp add: notifyHeader_def serviceLocation_def serviceUSN_def Let_def)
  have 1: "map sock (handlers (enablePeriodicSearch env tnow enable ep))
       = map (\<lambda>data. sock data @ [(groupURL data, searchHeader env data)]) (handlers ep)"
    unfolding enablePeriodicSearch_def Let_def
    by (simp del: map_map, rule map_enumerate_proj) (simp add: sendSearchHeader_def sendHeader_def)
  have 2: "map sock (handlers (enablePeriodicNotify env tnow enable ep))
       = map (\<lambda>data. if serviceRegistered ep
                      then sock data @ [(groupURL data, notifyHeader env ep data NTS_ALIVE)]
                      else sock data) (handlers ep)"
    unfolding enablePeriodicNotify_def Let_def
    by (simp del: map_map, rule map_enumerate_proj)
       (simp add: sendNotifyHeader_def sendHeader_def nh)
  have 3: "getLine0 (searchHeader env data) = ''M-SEARCH * HTTP/1.1''"
    "getLine0 (notifyHeader env ep data NTS_ALIVE) = ''NOTIFY * HTTP/1.1''"
    "getField (notifyHeader env ep data NTS_ALIVE) ''NTS'' = NTS_ALIVE"
    by (simp_all add: searchHeader_def notifyHeader_def getLine0_def getField_def addField_def
        newHeader_def)
  have 4: "periodicSearchEnabled (enablePeriodicSearch env tnow enable ep) = enable"
    "periodicNotifyEnabled (enablePeriodicNotify env tnow enable ep) = enable"
    by (simp_all add: enablePeriodicSearch_def enablePeriodicNotify_def Let_def)
  from 1 2 3 4 show ?thesis by simp
qed

text \<open>
  C3, as the claim states it: called with false the operations only toggle the flag and
  send no message, and called with true they send one message per handler. On an endpoint
  with one handler that has sent nothing and a registered service, both operations called
  with false send a message; on an endpoint without a registered service,
  \<^verbatim>\<open>enablePeriodicNotify\<close> called with true sends nothing.
\<close>

theorem enablePeriodic_counterexample:
  "map sock (handlers endpointX) = [[]]
   \<and> periodicSearchEnabled (enablePeriodicSearch exampleEnv int False endpointX) = False
   \<and> map sock (handlers (enablePeriodicSearch exampleEnv int False endpointX))
       = [[(''udp://239.255.255.250:1900'', searchHeader exampleEnv handler4)]]
   \<and> map sock (handlers (enablePeriodicNotify exampleEnv int False endpointX))
       = [[(''udp://239.255.255.250:1900'', notifyHeader exampleEnv endpointX handler4 NTS_ALIVE)]]
   \<and> map sock (handlers (enablePeriodicNotify exampleEnv int True
         (newEndpoint\<lparr>handlers := [handler4]\<rparr>))) = [[]]"
  by (simp add: enablePeriodicSearch_def enablePeriodicNotify_def endpointX_def registerService_def
      newEndpoint_def handler4_def sendSearchHeader_def sendNotifyHeader_def sendHeader_def
      searchHeader_def notifyHeader_def enumerate_eq_zip serviceLocation_def serviceUSN_def
      Let_def)

subsection \<open>Search requests\<close>

text \<open>
  C4, as the code has it. A search request changes nothing unless a service is registered,
  its MAN field is the discover token and its ST field is \<^verbatim>\<open>ssdp:all\<close>, the well-known
  target, or \<^verbatim>\<open>uuid:\<close> followed by the identity of this node (the identity alone, without
  the \<^verbatim>\<open>::<target>\<close> that the USN adds to it). When the three tests pass, two datagrams are
  handed to the socket: the response, to the address the request came from, with the
  well-known target in ST, the locator of this node (its host name and registered service
  under the scheme tcp) in LOCATION and \<^verbatim>\<open>uuid:<identity>::<target>\<close> in USN; then an alive
  announcement to the multicast group, with the same USN.
\<close>

theorem handleSearchRequest_reply:
  "handleSearchRequest env ep tnow data request recvAddr =
     (if serviceRegistered ep \<and> getField request ''MAN'' = MAN_DISCOVER
         \<and> (getField request ''ST'' = ''ssdp:all''
              \<or> getField request ''ST'' = SOAPY_REMOTE_TARGET
              \<or> getField request ''ST'' = ''uuid:'' @ uuid ep)
      then data\<lparr>sock := sock data @ [(recvAddr, searchResponse env ep),
                     (groupURL data, notifyHeader env ep data NTS_ALIVE)],
                lastTimeNotify := tnow\<rparr>
      else data)
   \<and> getLine0 (searchResponse env ep) = ''HTTP/1.1 200 OK''
   \<and> getField (searchResponse env ep) ''ST'' = SOAPY_REMOTE_TARGET
   \<and> getField (searchResponse env ep) ''LOCATION''
       = toString env \<lparr>urlScheme = ''tcp'', urlNode = getHostName env, urlService = service ep\<rparr>
   \<and> getField (searchResponse env ep) ''USN'' = ''uuid:'' @ uuid ep @ ''::'' @ SOAPY_REMOTE_TARGET
   \<and> getLine0 (notifyHeader env ep data NTS_ALIVE) = ''NOTIFY * HTTP/1.1''
   \<and> getField (notifyHeader env ep data NTS_ALIVE) ''NTS'' = NTS_ALIVE
   \<and> getField (notifyHeader env ep data NTS_ALIVE) ''USN''
       = getField (searchResponse env ep) ''USN''"
proof -
  have nh: "notifyHeader env ep (data\<lparr>sock := s\<rparr>) nts = notifyHeader env ep data nts" for s nts
    by (simp add: notifyHeader_def)
  have 1: "handleSearchRequest env ep tnow data request recvAddr =
     (if serviceRegistered ep \<and> getField request ''MAN'' = MAN_DISCOVER
         \<and> (getField request ''ST'' = ''ssdp:all''
              \<or> getField request ''ST'' = SOAPY_REMOTE_TARGET
              \<or> getField request ''ST'' = ''uuid:'' @ uuid ep)
      then data\<lparr>sock := sock data @ [(recvAddr, searchResponse env ep),
                     (groupURL data, notifyHeader env ep data NTS_ALIVE)],
                lastTimeNotify := tnow\<rparr>
      else data)"
    by (simp add: handleSearchRequest_def sendNotifyHeader_def sendHeader_def nh Let_def)
  have 2: "getLine0 (searchResponse env ep) = ''HTTP/1.1 200 OK''"
    "getField (searchResponse env ep) ''ST'' = SOAPY_REMOTE_TARGET"
    "getField (searchResponse env ep) ''LOCATION''
       = toString env \<lparr>urlScheme = ''tcp'', urlNode = getHostName env, urlService = service ep\<rparr>"
    "getField (searchResponse env ep) ''USN'' = ''uuid:'' @ uuid ep @ ''::'' @ SOAPY_REMOTE_TARGET"
    by (simp_all add: searchResponse_def getField_def addField_def newHeader_def getLine0_def
        serviceLocation_def serviceUSN_def)
  have 3: "getLine0 (notifyHeader env ep data NTS_ALIVE) = ''NOTIFY * HTTP/1.1''"
    "getField (notifyHeader env ep data NTS_ALIVE) ''NTS'' = NTS_ALIVE"
    "getField (notifyHeader env ep data NTS_ALIVE) ''USN'' = ''uuid:'' @ uuid ep @ ''::'' @ SOAPY_REMOTE_TARGET"
    by (simp_all add: notifyHeader_def getField_def addField_def newHeader_def getLine0_def
        serviceLocation_def serviceUSN_def)
  from 1 2 3 show ?thesis by simp
qed

text \<open>Scenario A of the specification: X registers identity U and port 9999 and is searched.\<close>

theorem handleSearchRequest_reply_witness:
  "handleSearchRequest exampleEnv endpointX 7 handler4 searchFromPeer ''udp://10.0.0.2:50000''
     = handler4\<lparr>sock := [(''udp://10.0.0.2:50000'', searchResponse exampleEnv endpointX),
          (''udp://239.255.255.250:1900'', notifyHeader exampleEnv endpointX handler4 NTS_ALIVE)],
        lastTimeNotify := 7\<rparr>
   \<and> getField (searchResponse exampleEnv endpointX) ''LOCATION'' = ''tcp://X:9999''
   \<and> getField (searchResponse exampleEnv endpointX) ''USN''
       = ''uuid:U::urn:schemas-pothosware-com:service:soapyRemote:1''"
proof -
  have man: "getField searchFromPeer ''MAN'' = MAN_DISCOVER"
    and st: "getField searchFromPeer ''ST'' = SOAPY_REMOTE_TARGET"
    by (simp_all add: searchFromPeer_def searchHeader_def getField_def addField_def
        newHeader_def Let_def)
  have reg: "serviceRegistered endpointX" "uuid endpointX = ''U''" "service endpointX = ''9999''"
    by (simp_all add: endpointX_def registerService_def)
  have h4: "sock handler4 = []" "groupURL handler4 = ''udp://239.255.255.250:1900''"
    by (simp_all add: handler4_def)
  have env: "toString exampleEnv \<lparr>urlScheme = ''tcp'', urlNode = getHostName exampleEnv,
      urlService = ''9999''\<rparr> = ''tcp://X:9999''"
    by (simp add: exampleEnv_def simpleToString_def)
  from handleSearchRequest_reply [of exampleEnv endpointX 7 handler4 searchFromPeer
      "''udp://10.0.0.2:50000''"] man st reg h4 env
  show ?thesis by (simp add: SOAPY_REMOTE_TARGET_def)
qed

text \<open>
  C4, as the claim states it: the third search target that is answered is the
  identity-qualified target of this node, which the specification uses for the USN
  \<^verbatim>\<open>uuid:<identity>::<target>\<close>. The endpoint of scenario A, with a service registered under
  the identity U, receives a search whose MAN field is the discover token and whose ST
  field is its own USN: the handler is returned as it was, no response and no announcement
  are sent. The search for \<^verbatim>\<open>uuid:U\<close>, which is not the USN, is answered.
\<close>

theorem handleSearchRequest_own_USN_counterexample:
  "serviceRegistered endpointX
   \<and> getField searchForUSN ''MAN'' = MAN_DISCOVER
   \<and> getField searchForUSN ''ST'' = serviceUSN endpointX
   \<and> getField (searchResponse exampleEnv endpointX) ''USN'' = getField searchForUSN ''ST''
   \<and> handleSearchRequest exampleEnv endpointX 7 handler4 searchForUSN ''udp://10.0.0.2:50000''
       = handler4
   \<and> getField searchForIdentity ''MAN'' = MAN_DISCOVER
   \<and> getField searchForIdentity ''ST'' \<noteq> serviceUSN endpointX
   \<and> getField searchForIdentity ''ST'' \<noteq> SOAPY_REMOTE_TARGET
   \<and> getField searchForIdentity ''ST'' \<noteq> ''ssdp:all''
   \<and> sock (handleSearchRequest exampleEnv endpointX 7 handler4 searchForIdentity
         ''udp://10.0.0.2:50000'')
       = [(''udp://10.0.0.2:50000'', searchResponse exampleEnv endpointX),
          (''udp://239.255.255.250:1900'', notifyHeader exampleEnv endpointX handler4 NTS_ALIVE)]"
proof -
  have reg: "serviceRegistered endpointX" "uuid endpointX = ''U''"
    by (simp_all add: endpointX_def registerService_def)
  have usn: "serviceUSN endpointX = ''uuid:U::urn:schemas-pothosware-com:service:soapyRemote:1''"
    by (simp add: serviceUSN_def reg SOAPY_REMOTE_TARGET_def)
  have f1: "getField searchForUSN ''MAN'' = MAN_DISCOVER"
    "getField searchForUSN ''ST'' = ''uuid:U::urn:schemas-pothosware-com:service:soapyRemote:1''"
    by (simp_all add: searchForUSN_def getField_def)
  have f2: "getField searchForIdentity ''MAN'' = MAN_DISCOVER"
    "getField searchForIdentity ''ST'' = ''uuid:U''"
    by (simp_all add: searchForIdentity_def getField_def)
  have resp: "getField (searchResponse exampleEnv endpointX) ''USN'' = serviceUSN endpointX"
    by (simp add: searchResponse_def getField_def addField_def newHeader_def Let_def)
  have nh: "notifyHeader exampleEnv endpointX (handler4\<lparr>sock := s\<rparr>) NTS_ALIVE
      = notifyHeader exampleEnv endpointX handler4 NTS_ALIVE" for s
    by (simp add: notifyHeader_def)
  have h4: "sock handler4 = []" "groupURL handler4 = ''udp://239.255.255.250:1900''"
    by (simp_all add: handler4_def)
  have ignored: "handleSearchRequest exampleEnv endpointX 7 handler4 searchForUSN
      ''udp://10.0.0.2:50000'' = handler4"
    by (simp add: handleSearchRequest_def f1 reg SOAPY_REMOTE_TARGET_def)
  have answered: "sock (handleSearchRequest exampleEnv endpointX 7 handler4 searchForIdentity
         ''udp://10.0.0.2:50000'')
       = [(''udp://10.0.0.2:50000'', searchResponse exampleEnv endpointX),
          (''udp://239.255.255.250:1900'', notifyHeader exampleEnv endpointX handler4 NTS_ALIVE)]"
    by (simp add: handleSearchRequest_def f2 reg sendNotifyHeader_def sendHeader_def nh h4)
  from reg f1 f2 usn resp ignored answered show ?thesis
    by (simp add: SOAPY_REMOTE_TARGET_def)
qed

subsection \<open>Peer registration\<close>

text \<open>
  C7. A message without a USN field leaves the handler as it is. A message with a USN whose
  NTS field is \<^verbatim>\<open>ssdp:byebye\<close> removes the entry of that USN from the cache and changes
  nothing else: the other entries stay, in their order, whatever their expiry; the cache
  afterwards maps the USN to nothing, whether it did before or not. The result is the same
  for every message with that USN and subtype, whatever its other fields, its sender and
  the time.
\<close>

theorem handleRegisterService_byebye:
  "(getField header ''USN'' = [] \<longrightarrow>
      handleRegisterService env tnow data header recvAddr = Inr data)
   \<and> (getField header ''USN'' \<noteq> [] \<and> getField header ''NTS'' = NTS_BYEBYE \<longrightarrow>
        handleRegisterService env tnow data header recvAddr
          = Inr (data\<lparr>usnToURL := filter (\<lambda>entry. fst entry \<noteq> getField header ''USN'') (usnToURL data)\<rparr>)
        \<and> (\<forall>data'. handleRegisterService env tnow data header recvAddr = Inr data' \<longrightarrow>
              map_of (usnToURL data') = (map_of (usnToURL data))(getField header ''USN'' := None))
        \<and> (\<forall>header' tnow' recvAddr'.
              getField header' ''USN'' = getField header ''USN''
              \<and> getField header' ''NTS'' = NTS_BYEBYE \<longrightarrow>
              handleRegisterService env tnow' data header' recvAddr'
                = handleRegisterService env tnow data header recvAddr))"
  by (auto simp: handleRegisterService_def Let_def map_erase_filter [symmetric] map_of_map_erase)

theorem handleRegisterService_byebye_witness:
  "getField notifyWithoutUSN ''USN'' = []
   \<and> handleRegisterService exampleEnv 5 (handler4\<lparr>usnToURL := [(peerUSN, (''tcp://10.0.0.2:7777'', seconds 120))]\<rparr>)
        notifyWithoutUSN ''udp://10.0.0.2:1900''
       = Inr (handler4\<lparr>usnToURL := [(peerUSN, (''tcp://10.0.0.2:7777'', seconds 120))]\<rparr>)
   \<and> getField byebyeFromPeer ''USN'' \<noteq> [] \<and> getField byebyeFromPeer ''NTS'' = NTS_BYEBYE
   \<and> handleRegisterService exampleEnv 5 (handler4\<lparr>usnToURL := [(peerUSN, (''tcp://10.0.0.2:7777'', seconds 120))]\<rparr>)
        byebyeFromPeer ''udp://10.0.0.2:1900''
       = Inr (handler4\<lparr>usnToURL := []\<rparr>)"
  using handleRegisterService_byebye [of notifyWithoutUSN exampleEnv 5
      "handler4\<lparr>usnToURL := [(peerUSN, (''tcp://10.0.0.2:7777'', seconds 120))]\<rparr>"
      "''udp://10.0.0.2:1900''"]
    handleRegisterService_byebye [of byebyeFromPeer exampleEnv 5
      "handler4\<lparr>usnToURL := [(peerUSN, (''tcp://10.0.0.2:7777'', seconds 120))]\<rparr>"
      "''udp://10.0.0.2:1900''"]
  by (simp add: getField_def byebyeFromPeer_def notifyWithoutUSN_def peerUSN_def)

text \<open>
  C8. For a message with a USN and a LOCATION that is no departure, the handler assigns to
  the USN the locator made of the scheme tcp, the node of the address the datagram came
  from and the service of the LOCATION field (the node of LOCATION is not read), with the
  expiry \<open>now\<close> plus the seconds that \<^verbatim>\<open>getCacheDuration\<close> returns; an exception of
  \<^verbatim>\<open>getCacheDuration\<close> leaves the function before the assignment. The assignment replaces
  the entry of the USN if there is one, keeps every other entry, and keeps the map a map.
  Announcements and search responses with the well-known target are handled so.
\<close>

theorem handleRegisterService_upsert:
  assumes "getField header ''USN'' \<noteq> []" and "getField header ''NTS'' \<noteq> NTS_BYEBYE"
    and "getField header ''LOCATION'' \<noteq> []"
  shows "handleRegisterService env tnow data header recvAddr =
     (case getCacheDuration header of
        Inl e \<Rightarrow> Inl e
      | Inr duration \<Rightarrow>
          Inr (data\<lparr>usnToURL := map_assign (getField header ''USN'')
                 (toString env \<lparr>urlScheme = ''tcp'',
                    urlNode = urlNode (parseURL env recvAddr),
                    urlService = urlService (parseURL env (getField header ''LOCATION''))\<rparr>,
                  tnow + seconds duration)
                 (usnToURL data)\<rparr>))
   \<and> (\<forall>entry. map_of (map_assign (getField header ''USN'') entry (usnToURL data))
         = (map_of (usnToURL data))(getField header ''USN'' \<mapsto> entry))
   \<and> (\<forall>entry. map_ok (usnToURL data) \<longrightarrow>
         map_ok (map_assign (getField header ''USN'') entry (usnToURL data)))
   \<and> (getField header ''NT'' = SOAPY_REMOTE_TARGET \<longrightarrow>
        handleNotifyRequest env tnow data header recvAddr
          = handleRegisterService env tnow data header recvAddr)
   \<and> (getField header ''ST'' = SOAPY_REMOTE_TARGET \<longrightarrow>
        handleSearchResponse env tnow data header recvAddr
          = handleRegisterService env tnow data header recvAddr)"
  using assms
  by (auto simp: handleRegisterService_def Let_def map_of_map_assign map_ok_map_assign
      handleNotifyRequest_def handleSearchResponse_def getNode_def getService_def
      split: sum.splits)

text \<open>
  An announcement from 10.0.0.2 whose LOCATION names the host \<^verbatim>\<open>spoofed\<close>, received at time
  1000 by a handler that holds an older entry of the peer.
\<close>

theorem handleRegisterService_upsert_witness:
  "getField (notifyFromPeer ''max-age=30'') ''USN'' \<noteq> []
   \<and> getField (notifyFromPeer ''max-age=30'') ''NTS'' \<noteq> NTS_BYEBYE
   \<and> getField (notifyFromPeer ''max-age=30'') ''LOCATION'' \<noteq> []
   \<and> handleRegisterService exampleEnv 1000
        (handler4\<lparr>usnToURL := [(peerUSN, (''tcp://10.0.0.9:1'', 5))]\<rparr>)
        (notifyFromPeer ''max-age=30'') ''udp://10.0.0.2:1900''
       = Inr (handler4\<lparr>usnToURL := [(peerUSN, (''tcp://10.0.0.2:7777'', 30000001000))]\<rparr>)"
  using handleRegisterService_upsert [of "notifyFromPeer ''max-age=30''" exampleEnv 1000
      "handler4\<lparr>usnToURL := [(peerUSN, (''tcp://10.0.0.9:1'', 5))]\<rparr>" "''udp://10.0.0.2:1900''"]
  by (simp add: getField_def notifyFromPeer_def peerUSN_def NTS_ALIVE_def NTS_BYEBYE_def
      getCacheDuration_def str_substr_def stoul_def digit_val_def isspace_def seconds_def
      exampleEnv_def simpleParseURL_def simpleToString_def)

subsection \<open>Expiry\<close>

lemma removeOldCacheEntries_filter:
  "removeOldCacheEntries timeNow m = filter (\<lambda>entry. timeNow < snd (snd entry)) m"
  by (induction timeNow m rule: removeOldCacheEntries.induct) auto

lemma set_map_assign_subset: "set (map_assign k v m) \<subseteq> insert (k, v) (set m)"
  by (induction m) (auto split: if_splits)

lemma set_mergeURLs_subset: "set (mergeURLs b entries acc) \<subseteq> set entries \<union> set acc"
proof (induction entries arbitrary: acc)
  case Nil
  then show ?case by (simp add: mergeURLs_def)
next
  case (Cons p entries)
  have "mergeURLs b (p # entries) acc = mergeURLs b entries (mergeEntry b p acc)"
    by (simp add: mergeURLs_def)
  moreover have "set (mergeEntry b p acc) \<subseteq> insert p (set acc)"
    using set_map_assign_subset [of "fst p" "snd p" acc] by (auto simp: mergeEntry_def)
  ultimately show ?case using Cons.IH [of "mergeEntry b p acc"] by auto
qed

lemma set_mergeHandler_subset:
  "set (mergeHandler v only d acc) \<subseteq> set acc \<union> set (usnToURL d)"
  using set_mergeURLs_subset [of "ipVer d = v" "usnToURL d" acc]
  by (auto simp: mergeHandler_def Let_def)

lemma set_fold_mergeHandler_subset:
  "set (fold (mergeHandler v only) hs acc) \<subseteq> set acc \<union> (\<Union>data\<in>set hs. set (usnToURL data))"
proof (induction hs arbitrary: acc)
  case Nil
  then show ?case by simp
next
  case (Cons d hs)
  from Cons.IH [of "mergeHandler v only d acc"] set_mergeHandler_subset [of v only d acc]
  show ?case by auto
qed

lemma set_usnPrefToURL_subset:
  "set (usnPrefToURL ep v only) \<subseteq> (\<Union>data\<in>set (handlers ep). set (usnToURL data))"
  unfolding usnPrefToURL_def using set_fold_mergeHandler_subset [of v only "handlers ep" "[]"]
  by simp

text \<open>
  C5, as the code has it. The sweep of an iteration keeps exactly the entries whose expiry
  is strictly after \<^verbatim>\<open>timeNow\<close>, in their order, and removes the others; the cache of the
  handler after the iteration part that runs every time is the swept cache. \<^verbatim>\<open>getServerURLs\<close>
  reads no clock and filters nothing: it returns the locators of the merged entries, and
  these expire strictly after \<open>now\<close> when the entries of every handler do, as they do right
  after a sweep at \<open>now\<close>.
\<close>

theorem query_fresh_after_sweep:
  "removeOldCacheEntries timeNow m = filter (\<lambda>entry. timeNow < snd (snd entry)) m
   \<and> usnToURL (sweepAndTrigger env ep timeNow tSearch tNotify data)
       = removeOldCacheEntries timeNow (usnToURL data)
   \<and> expiresAfter timeNow (removeOldCacheEntries timeNow m)
   \<and> getServerURLs ep ipVersion only = locators (usnPrefToURL ep ipVersion only)
   \<and> (list_all (\<lambda>data. expiresAfter now (usnToURL data)) (handlers ep)
        \<longrightarrow> expiresAfter now (usnPrefToURL ep ipVersion only))"
proof -
  have 1: "usnToURL (sweepAndTrigger env ep timeNow tSearch tNotify data)
       = removeOldCacheEntries timeNow (usnToURL data)"
    by (simp add: sweepAndTrigger_def Let_def sendSearchHeader_def sendNotifyHeader_def)
  have 2: "expiresAfter timeNow (removeOldCacheEntries timeNow m)"
    by (simp add: expiresAfter_def removeOldCacheEntries_filter list_all_iff)
  have 3: "expiresAfter now (usnPrefToURL ep ipVersion only)"
    if "list_all (\<lambda>data. expiresAfter now (usnToURL data)) (handlers ep)"
    using that set_usnPrefToURL_subset [of ep ipVersion only]
    by (fastforce simp: expiresAfter_def list_all_iff)
  from 1 2 3 show ?thesis
    by (simp add: removeOldCacheEntries_filter getServerURLs_def locators_def)
qed

text \<open>A handler swept at time 10, queried before anything else happens.\<close>

theorem query_fresh_after_sweep_witness:
  "list_all (\<lambda>data. expiresAfter 10 (usnToURL data))
     (handlers (endpointX\<lparr>handlers := [handler4\<lparr>usnToURL := removeOldCacheEntries 10
        [(''a'', (''tcp://10.0.0.1:1'', 5)), (peerUSN, (''tcp://10.0.0.2:7777'', 20))]\<rparr>]\<rparr>))
   \<and> getServerURLs (endpointX\<lparr>handlers := [handler4\<lparr>usnToURL := removeOldCacheEntries 10
        [(''a'', (''tcp://10.0.0.1:1'', 5)), (peerUSN, (''tcp://10.0.0.2:7777'', 20))]\<rparr>]\<rparr>) 4 False
       = [''tcp://10.0.0.2:7777'']
   \<and> expiresAfter 10 (usnPrefToURL (endpointX\<lparr>handlers := [handler4\<lparr>usnToURL := removeOldCacheEntries 10
        [(''a'', (''tcp://10.0.0.1:1'', 5)), (peerUSN, (''tcp://10.0.0.2:7777'', 20))]\<rparr>]\<rparr>) 4 False)"
  using query_fresh_after_sweep [where now = 10 and ipVersion = 4 and only = False
      and ep = "endpointX\<lparr>handlers := [handler4\<lparr>usnToURL := removeOldCacheEntries 10
        [(''a'', (''tcp://10.0.0.1:1'', 5)), (peerUSN, (''tcp://10.0.0.2:7777'', 20))]\<rparr>]\<rparr>"]
  by (simp add: expiresAfter_def locators_def usnPrefToURL_def mergeURLs_def handler4_def
      map_count_def mergeHandler_def mergeEntry_def)

text \<open>
  C5, as the claim states it: every entry a query returns expires strictly after the time
  of the query. A handler learns of peer P at time 0 with a cache duration of 5 seconds;
  its next \<^verbatim>\<open>recvfrom\<close> fails, which ends its thread (and its sweeps) while its data stays
  in \<^verbatim>\<open>handlers\<close>. A query at 10 seconds returns the locator of P, whose entry expired at
  5 seconds.
\<close>

theorem stale_entry_counterexample:
  "handlerLoopBody exampleEnv endpointX
      (Received 200 (notifyFromPeer ''max-age=5'') ''udp://10.0.0.2:1900'') 0 0 0 0 handler4
     = Inr (handler4\<lparr>usnToURL := [(peerUSN, (''tcp://10.0.0.2:7777'', seconds 5))]\<rparr>)
   \<and> handlerLoopBody exampleEnv endpointX
      (Received (- 1) (notifyFromPeer ''max-age=5'') ''udp://10.0.0.2:1900'') 0 0 0 0
      (handler4\<lparr>usnToURL := [(peerUSN, (''tcp://10.0.0.2:7777'', seconds 5))]\<rparr>)
     = Inl RecvFailed
   \<and> getServerURLs
       (endpointX\<lparr>handlers := [handler4\<lparr>usnToURL := [(peerUSN, (''tcp://10.0.0.2:7777'', seconds 5))]\<rparr>]\<rparr>)
       4 False = [''tcp://10.0.0.2:7777'']
   \<and> \<not> expiresAfter (seconds 10) (usnPrefToURL
       (endpointX\<lparr>handlers := [handler4\<lparr>usnToURL := [(peerUSN, (''tcp://10.0.0.2:7777'', seconds 5))]\<rparr>]\<rparr>)
       4 False)"
  by (simp add: handlerLoopBody_def dispatch_def getLine0_def notifyFromPeer_def
      handleNotifyRequest_def handleRegisterService_def getField_def getCacheDuration_def
      str_substr_def stoul_def digit_val_def isspace_def Let_def sweepAndTrigger_def
      endpointX_def registerService_def newEndpoint_def handler4_def exampleEnv_def
      simpleParseURL_def simpleToString_def getNode_def getService_def
      SOAPY_REMOTE_TARGET_def NTS_ALIVE_def NTS_BYEBYE_def seconds_def
      TRIGGER_TIMEOUT_SECONDS_def getServerURLs_def usnPrefToURL_def mergeURLs_def
      mergeHandler_def mergeEntry_def
      map_count_def expiresAfter_def peerUSN_def)

subsection \<open>The merged view of getServerURLs\<close>

lemma map_ok_distinct: "map_ok m \<Longrightarrow> distinct (map fst m)"
  by (simp add: map_ok_def strict_sorted_iff)

lemma map_of_mergeEntry:
  "map_of (mergeEntry b p acc)
     = (if b then (map_of acc)(fst p \<mapsto> snd p) else [fst p \<mapsto> snd p] ++ map_of acc)"
  by (auto simp: mergeEntry_def map_count_def map_of_map_assign map_add_def fun_eq_iff
      split: option.splits)

lemma keys_mergeEntry: "fst ` set (mergeEntry b p acc) = insert (fst p) (fst ` set acc)"
proof -
  have "dom (map_of (mergeEntry b p acc)) = insert (fst p) (dom (map_of acc))"
    by (auto simp: map_of_mergeEntry)
  then show ?thesis by (simp add: dom_map_of_conv_image_fst)
qed

lemma map_ok_mergeEntry: "map_ok acc \<Longrightarrow> map_ok (mergeEntry b p acc)"
  by (simp add: mergeEntry_def map_ok_map_assign)

lemma map_ok_mergeURLs: "map_ok acc \<Longrightarrow> map_ok (mergeURLs b es acc)"
  unfolding mergeURLs_def by (induction es arbitrary: acc) (simp_all add: map_ok_mergeEntry)

lemma keys_mergeURLs: "fst ` set (mergeURLs b es acc) = fst ` set es \<union> fst ` set acc"
  unfolding mergeURLs_def by (induction es arbitrary: acc) (auto simp: keys_mergeEntry)

lemma map_of_mergeURLs_False: "map_of (mergeURLs False es acc) = map_of es ++ map_of acc"
  unfolding mergeURLs_def
proof (induction es arbitrary: acc)
  case Nil
  then show ?case by simp
next
  case (Cons p es)
  obtain k e where p: "p = (k, e)" by (cases p)
  show ?case
    by (auto simp: Cons.IH map_of_mergeEntry p map_add_def fun_eq_iff split: option.splits)
qed

lemma map_of_mergeURLs_True:
  "distinct (map fst es) \<Longrightarrow> map_of (mergeURLs True es acc) = map_of acc ++ map_of es"
  unfolding mergeURLs_def
proof (induction es arbitrary: acc)
  case Nil
  then show ?case by simp
next
  case (Cons p es)
  obtain k e where p: "p = (k, e)" by (cases p)
  from Cons.prems have notin: "map_of es k = None" and d: "distinct (map fst es)"
    by (auto simp: p map_of_eq_None_iff)
  show ?case
    using notin by (auto simp: Cons.IH [OF d] map_of_mergeEntry p map_add_def fun_eq_iff
        split: option.splits)
qed

lemma map_assign_append:
  "\<forall>x\<in>set acc. fst x < k \<Longrightarrow> map_assign k v acc = acc @ [(k, v)]"
  by (induction acc) (auto simp: not_less_iff_gr_or_eq)

lemma mergeURLs_ascending: "map_ok (acc @ es) \<Longrightarrow> mergeURLs True es acc = acc @ es"
  unfolding mergeURLs_def
proof (induction es arbitrary: acc)
  case Nil
  then show ?case by simp
next
  case (Cons p es)
  from Cons.prems have below: "\<forall>x\<in>set acc. fst x < fst p"
    by (auto simp: map_ok_def sorted_wrt_append)
  then have step: "mergeEntry True p acc = acc @ [p]"
    by (simp add: mergeEntry_def map_assign_append)
  from Cons.prems have "map_ok ((acc @ [p]) @ es)" by simp
  from Cons.IH [OF this] step show ?case by simp
qed

lemma fold_mergeHandler_only:
  "fold (mergeHandler v True) hs acc
     = fold (\<lambda>d. mergeURLs True (usnToURL d)) (filter (\<lambda>d. ipVer d = v) hs) acc"
  by (induction hs arbitrary: acc) (simp_all add: mergeHandler_def)

lemma filter_distinct_key:
  "distinct (map f xs) \<Longrightarrow> filter (\<lambda>x. f x = v) xs = [] \<or> (\<exists>d\<in>set xs. filter (\<lambda>x. f x = v) xs = [d])"
proof (induction xs)
  case Nil
  then show ?case by simp
next
  case (Cons x xs)
  show ?case
  proof (cases "f x = v")
    case True
    with Cons.prems have "v \<notin> f ` set xs" by auto
    then have "\<forall>y\<in>set xs. f y \<noteq> v" by blast
    then have "filter (\<lambda>x. f x = v) xs = []" by (simp add: filter_empty_conv)
    with True show ?thesis by simp
  next
    case False
    with Cons show ?thesis by auto
  qed
qed

lemma map_ok_fold_mergeHandler:
  "map_ok acc \<Longrightarrow> map_ok (fold (mergeHandler v only) hs acc)"
  by (induction hs arbitrary: acc) (simp_all add: mergeHandler_def map_ok_mergeURLs Let_def)

lemma keys_fold_mergeHandler:
  "fst ` set (fold (mergeHandler v False) hs acc)
     = fst ` set acc \<union> (\<Union>d\<in>set hs. fst ` set (usnToURL d))"
  by (induction hs arbitrary: acc) (auto simp: mergeHandler_def keys_mergeURLs)

lemma fold_mergeHandler_keeps:
  "\<forall>d\<in>set hs. ipVer d \<noteq> v \<Longrightarrow> map_of acc k = Some e
     \<Longrightarrow> map_of (fold (mergeHandler v False) hs acc) k = Some e"
  by (induction hs arbitrary: acc) (simp_all add: mergeHandler_def map_of_mergeURLs_False)

lemma fold_mergeHandler_prefers:
  assumes "distinct (map ipVer hs)" and "d \<in> set hs" and "ipVer d = v"
    and "map_ok (usnToURL d)" and "map_of (usnToURL d) k = Some e"
  shows "map_of (fold (mergeHandler v False) hs acc) k = Some e"
  using assms(1,2)
proof (induction hs arbitrary: acc)
  case Nil
  then show ?case by simp
next
  case (Cons x xs)
  show ?case
  proof (cases "x = d")
    case True
    from Cons.prems True assms(3) have "v \<notin> ipVer ` set xs" by auto
    then have rest: "\<forall>y\<in>set xs. ipVer y \<noteq> v" by blast
    have "map_of (mergeHandler v False d acc) k = Some e"
      using assms(3,4,5) by (simp add: mergeHandler_def map_of_mergeURLs_True map_ok_distinct)
    from fold_mergeHandler_keeps [OF rest this] True show ?thesis by simp
  next
    case False
    with Cons.prems have "distinct (map ipVer xs)" "d \<in> set xs" by auto
    from Cons.IH [OF this] show ?thesis by simp
  qed
qed

text \<open>
  C6. On an endpoint whose caches are maps and whose handlers have different address
  families: with \<^verbatim>\<open>only\<close> set, \<^verbatim>\<open>getServerURLs\<close> returns exactly the locators of the entries
  of the handler of the wanted family, in the order of its map (and nothing when there is
  no such handler). Without \<^verbatim>\<open>only\<close>, the result is the list of the locators of a merged
  map that has one entry for each USN held by any handler, where every entry is an
  entry of some handler and every entry of the handler of the wanted family is present, so
  that a USN held by several handlers gets the locator of that handler. The result holds
  locators only: one for each such USN.
\<close>

theorem getServerURLs_preference:
  assumes "endpoint_ok ep"
  shows "getServerURLs ep v True
           = concat (map (\<lambda>d. locators (usnToURL d)) (filter (\<lambda>d. ipVer d = v) (handlers ep)))
   \<and> getServerURLs ep v False = locators (usnPrefToURL ep v False)
   \<and> map_ok (usnPrefToURL ep v False)
   \<and> fst ` set (usnPrefToURL ep v False) = (\<Union>d\<in>set (handlers ep). fst ` set (usnToURL d))
   \<and> (\<forall>d\<in>set (handlers ep). ipVer d = v \<longrightarrow> set (usnToURL d) \<subseteq> set (usnPrefToURL ep v False))
   \<and> set (usnPrefToURL ep v False) \<subseteq> (\<Union>d\<in>set (handlers ep). set (usnToURL d))
   \<and> length (getServerURLs ep v False) = card (\<Union>d\<in>set (handlers ep). fst ` set (usnToURL d))"
proof -
  from assms have ok: "\<forall>d\<in>set (handlers ep). map_ok (usnToURL d)"
    and dist: "distinct (map ipVer (handlers ep))"
    by (simp_all add: endpoint_ok_def list_all_iff)
  have empty_ok: "map_ok ([] :: DiscoveredURLs)" by (simp add: map_ok_def)
  have 1: "getServerURLs ep v True
           = concat (map (\<lambda>d. locators (usnToURL d)) (filter (\<lambda>d. ipVer d = v) (handlers ep)))"
  proof -
    from filter_distinct_key [OF dist, of v]
    consider "filter (\<lambda>d. ipVer d = v) (handlers ep) = []"
      | d where "d \<in> set (handlers ep)" "filter (\<lambda>d. ipVer d = v) (handlers ep) = [d]"
      by auto
    then show ?thesis
    proof cases
      case 1
      then show ?thesis
        by (simp add: getServerURLs_def usnPrefToURL_def fold_mergeHandler_only)
    next
      case 2
      with ok have "mergeURLs True (usnToURL d) [] = usnToURL d"
        by (simp add: mergeURLs_ascending)
      with 2 show ?thesis
        by (simp add: getServerURLs_def usnPrefToURL_def fold_mergeHandler_only locators_def)
    qed
  qed
  have 2: "map_ok (usnPrefToURL ep v False)"
    unfolding usnPrefToURL_def by (rule map_ok_fold_mergeHandler [OF empty_ok])
  have 3: "fst ` set (usnPrefToURL ep v False) = (\<Union>d\<in>set (handlers ep). fst ` set (usnToURL d))"
    by (simp add: usnPrefToURL_def keys_fold_mergeHandler)
  have 4: "set (usnToURL d) \<subseteq> set (usnPrefToURL ep v False)"
    if "d \<in> set (handlers ep)" "ipVer d = v" for d
  proof
    fix entry assume "entry \<in> set (usnToURL d)"
    moreover from ok that have okd: "map_ok (usnToURL d)" by simp
    ultimately have "map_of (usnToURL d) (fst entry) = Some (snd entry)"
      by (simp add: map_ok_distinct)
    from fold_mergeHandler_prefers [OF dist that okd this]
    have "map_of (usnPrefToURL ep v False) (fst entry) = Some (snd entry)"
      by (simp add: usnPrefToURL_def)
    then show "entry \<in> set (usnPrefToURL ep v False)"
      using map_of_SomeD by fastforce
  qed
  have 5: "length (getServerURLs ep v False) = card (\<Union>d\<in>set (handlers ep). fst ` set (usnToURL d))"
  proof -
    have "card (set (map fst (usnPrefToURL ep v False))) = length (map fst (usnPrefToURL ep v False))"
      using map_ok_distinct [OF 2] by (rule distinct_card)
    with 3 show ?thesis by (simp add: getServerURLs_def)
  qed
  from 1 2 3 4 5 set_usnPrefToURL_subset [of ep v False] show ?thesis
    by (simp add: getServerURLs_def locators_def)
qed

text \<open>Peer B is known to both handlers; the query prefers the family it is asked for.\<close>

theorem getServerURLs_preference_witness:
  "endpoint_ok endpointTwoFamilies
   \<and> getServerURLs endpointTwoFamilies 6 True = [''tcp://[fe80::2]:2'', ''tcp://[fe80::3]:3'']
   \<and> getServerURLs endpointTwoFamilies 6 False
       = [''tcp://10.0.0.1:1'', ''tcp://[fe80::2]:2'', ''tcp://[fe80::3]:3'']
   \<and> getServerURLs endpointTwoFamilies 4 False
       = [''tcp://10.0.0.1:1'', ''tcp://10.0.0.2:2'', ''tcp://[fe80::3]:3'']"
proof -
  have ok: "endpoint_ok endpointTwoFamilies"
    by (simp add: endpoint_ok_def endpointTwoFamilies_def newEndpoint_def handler4_def
        handler6_def map_ok_def)
  have 4: "getServerURLs endpointTwoFamilies 4 False
       = [''tcp://10.0.0.1:1'', ''tcp://10.0.0.2:2'', ''tcp://[fe80::3]:3'']"
    by (simp add: getServerURLs_def usnPrefToURL_def mergeHandler_def mergeURLs_def
        mergeEntry_def map_count_def endpointTwoFamilies_def newEndpoint_def handler4_def
        handler6_def)
  have 6: "usnPrefToURL endpointTwoFamilies 6 False
       = [(''uuid:A'', (''tcp://10.0.0.1:1'', 100)), (''uuid:B'', (''tcp://[fe80::2]:2'', 100)),
          (''uuid:C'', (''tcp://[fe80::3]:3'', 100))]"
    by (simp add: usnPrefToURL_def mergeHandler_def mergeURLs_def
        mergeEntry_def map_count_def endpointTwoFamilies_def newEndpoint_def handler4_def
        handler6_def)
  have hs: "filter (\<lambda>d. ipVer d = 6) (handlers endpointTwoFamilies)
      = [handler6\<lparr>usnToURL := [(''uuid:B'', (''tcp://[fe80::2]:2'', 100)),
                              (''uuid:C'', (''tcp://[fe80::3]:3'', 100))]\<rparr>]"
    by (simp add: endpointTwoFamilies_def newEndpoint_def handler4_def handler6_def)
  from getServerURLs_preference [OF ok, of 6] ok 4 6 hs show ?thesis
    by (simp add: locators_def)
qed

text \<open>
  \<open>endpoint_ok\<close> holds of every endpoint the program can reach: the constructor
  establishes it, and every public operation and every iteration of a handler loop keeps
  it.
\<close>

lemma map_ok_filter: "map_ok m \<Longrightarrow> map_ok (filter P m)"
  by (induction m) (auto simp: map_ok_def)

lemma map_ok_map_erase: "map_ok m \<Longrightarrow> map_ok (map_erase k m)"
  by (simp add: map_erase_filter map_ok_filter)

lemma map_ok_removeOldCacheEntries: "map_ok m \<Longrightarrow> map_ok (removeOldCacheEntries t m)"
  by (simp add: removeOldCacheEntries_filter map_ok_filter)

lemma handleRegisterService_keeps:
  "handleRegisterService env tnow data header recvAddr = Inr data' \<Longrightarrow>
     ipVer data' = ipVer data \<and> (map_ok (usnToURL data) \<longrightarrow> map_ok (usnToURL data'))"
  by (auto simp: handleRegisterService_def Let_def map_ok_map_erase map_ok_map_assign
      split: if_splits sum.splits)

lemma handleSearchRequest_keeps:
  "ipVer (handleSearchRequest env ep tnow data request recvAddr) = ipVer data
   \<and> usnToURL (handleSearchRequest env ep tnow data request recvAddr) = usnToURL data"
  by (simp add: handleSearchRequest_def sendNotifyHeader_def Let_def)

lemma dispatch_keeps:
  assumes "dispatch env ep tRecv data header recvAddr = Inr data'"
  shows "ipVer data' = ipVer data \<and> (map_ok (usnToURL data) \<longrightarrow> map_ok (usnToURL data'))"
proof -
  let ?d1 = "if getLine0 header = ''M-SEARCH * HTTP/1.1''
             then handleSearchRequest env ep tRecv data header recvAddr else data"
  have d1: "ipVer ?d1 = ipVer data" "usnToURL ?d1 = usnToURL data"
    by (simp_all add: handleSearchRequest_keeps)
  from assms obtain d2 where
    2: "(if getLine0 header = ''HTTP/1.1 200 OK''
         then handleSearchResponse env tRecv ?d1 header recvAddr else Inr ?d1) = Inr d2"
    and 3: "(if getLine0 header = ''NOTIFY * HTTP/1.1''
         then handleNotifyRequest env tRecv d2 header recvAddr else Inr d2) = Inr data'"
    by (auto simp: dispatch_def Let_def split: sum.splits)
  from 2 have k2: "ipVer d2 = ipVer ?d1 \<and> (map_ok (usnToURL ?d1) \<longrightarrow> map_ok (usnToURL d2))"
    using handleRegisterService_keeps [of env tRecv ?d1 header recvAddr d2]
    by (auto simp: handleSearchResponse_def split: if_splits)
  from 3 have k3: "ipVer data' = ipVer d2 \<and> (map_ok (usnToURL d2) \<longrightarrow> map_ok (usnToURL data'))"
    using handleRegisterService_keeps [of env tRecv d2 header recvAddr data']
    by (auto simp: handleNotifyRequest_def split: if_splits)
  from k2 k3 d1 show ?thesis by simp
qed

lemma sweepAndTrigger_keeps:
  "ipVer (sweepAndTrigger env ep timeNow tSearch tNotify data) = ipVer data
   \<and> (map_ok (usnToURL data) \<longrightarrow>
        map_ok (usnToURL (sweepAndTrigger env ep timeNow tSearch tNotify data)))"
  by (simp add: sweepAndTrigger_def Let_def sendSearchHeader_def sendNotifyHeader_def
      map_ok_removeOldCacheEntries)

lemma handlerLoopBody_keeps:
  assumes "handlerLoopBody env ep rx tRecv timeNow tSearch tNotify data = Inr data'"
  shows "ipVer data' = ipVer data \<and> (map_ok (usnToURL data) \<longrightarrow> map_ok (usnToURL data'))"
proof (cases rx)
  case Timeout
  with assms sweepAndTrigger_keeps [of env ep timeNow tSearch tNotify data] show ?thesis
    by (auto simp: handlerLoopBody_def)
next
  case (Received ret header recvAddr)
  with assms obtain d1 where d1: "dispatch env ep tRecv data header recvAddr = Inr d1"
    and d': "data' = sweepAndTrigger env ep timeNow tSearch tNotify d1"
    by (auto simp: handlerLoopBody_def split: if_splits sum.splits)
  from dispatch_keeps [OF d1] sweepAndTrigger_keeps [of env ep timeNow tSearch tNotify d1] d'
  show ?thesis by simp
qed

lemma endpoint_ok_ctor:
  "endpoint_ok (snd (SoapySSDPEndpoint_ctor env isIPv6Supported ret4 ret6 p))"
  by (simp add: SoapySSDPEndpoint_ctor_def spawnHandler_def Let_def endpoint_ok_def
      newEndpoint_def map_ok_def)

lemma endpoint_ok_perform: "endpoint_ok ep \<Longrightarrow> endpoint_ok (perform env op ep)"
proof (cases op)
  case (RegisterService u s)
  assume "endpoint_ok ep"
  with RegisterService show ?thesis by (simp add: endpoint_ok_def registerService_def)
next
  case (EnablePeriodicSearch tnow enable)
  assume ok: "endpoint_ok ep"
  have "map ipVer (handlers (enablePeriodicSearch env tnow enable ep)) = map ipVer (handlers ep)"
    "map usnToURL (handlers (enablePeriodicSearch env tnow enable ep)) = map usnToURL (handlers ep)"
    unfolding enablePeriodicSearch_def Let_def
    by (simp del: map_map, rule map_enumerate_proj, simp add: sendSearchHeader_def)+
  with ok EnablePeriodicSearch show ?thesis
    by (simp add: endpoint_ok_def list.pred_map [symmetric, of map_ok usnToURL, unfolded comp_def])
next
  case (EnablePeriodicNotify tnow enable)
  assume ok: "endpoint_ok ep"
  have "map ipVer (handlers (enablePeriodicNotify env tnow enable ep)) = map ipVer (handlers ep)"
    "map usnToURL (handlers (enablePeriodicNotify env tnow enable ep)) = map usnToURL (handlers ep)"
    unfolding enablePeriodicNotify_def Let_def
    by (simp del: map_map, rule map_enumerate_proj, simp add: sendNotifyHeader_def)+
  with ok EnablePeriodicNotify show ?thesis
    by (simp add: endpoint_ok_def list.pred_map [symmetric, of map_ok usnToURL, unfolded comp_def])
next
  case (GetServerURLs v only)
  assume "endpoint_ok ep"
  with GetServerURLs show ?thesis by simp
next
  case (HandlerLoopBody i rx tRecv timeNow tSearch tNotify)
  assume ok: "endpoint_ok ep"
  show ?thesis
  proof (cases "i < length (handlers ep)")
    case False
    with ok HandlerLoopBody show ?thesis by simp
  next
    case True
    show ?thesis
    proof (cases "handlerLoopBody env ep rx tRecv timeNow tSearch tNotify (handlers ep ! i)")
      case (Inl x)
      with ok HandlerLoopBody True show ?thesis by simp
    next
      case (Inr d)
      from ok True have "map_ok (usnToURL (handlers ep ! i))"
        by (simp add: endpoint_ok_def list_all_length)
      with handlerLoopBody_keeps [OF Inr]
      have d: "ipVer d = ipVer (handlers ep ! i)" "map_ok (usnToURL d)" by simp_all
      from d(1) True have "map ipVer ((handlers ep)[i := d]) = map ipVer (handlers ep)"
        by (simp add: map_update list_update_same_conv)
      moreover from ok d(2) have "list_all (\<lambda>data. map_ok (usnToURL data)) ((handlers ep)[i := d])"
        using set_update_subset_insert [of "handlers ep" i d]
        by (auto simp: endpoint_ok_def list_all_iff)
      ultimately show ?thesis using ok HandlerLoopBody True Inr
        by (simp add: endpoint_ok_def)
    qed
  qed
qed

lemma endpoint_ok_reachable:
  "endpoint_ok (fold (perform env) ops (snd (SoapySSDPEndpoint_ctor env isIPv6Supported ret4 ret6 p)))"
proof -
  have "endpoint_ok ep \<Longrightarrow> endpoint_ok (fold (perform env) ops ep)" for ep
    by (induction ops arbitrary: ep) (simp_all add: endpoint_ok_perform)
  then show ?thesis using endpoint_ok_ctor by blast
qed

subsection \<open>The blacklist of multicast groups\<close>

lemma spawnHandler_blacklisted:
  "groupAddr \<in> blacklistedGroups (fst st) \<Longrightarrow>
     spawnHandler env joinRet bindRet bindAddr groupAddr ipVersion st = st"
  by (simp add: spawnHandler_def Let_def)

lemma spawnHandler_blacklist_grows:
  "blacklistedGroups (fst st)
     \<subseteq> blacklistedGroups (fst (spawnHandler env joinRet bindRet bindAddr groupAddr ipVersion st))"
  by (auto simp: spawnHandler_def Let_def)

lemma spawnAttempts_blacklist_grows:
  "blacklistedGroups (fst st) \<subseteq> blacklistedGroups (fst (spawnAttempts env as st))"
proof (induction as arbitrary: st)
  case Nil
  then show ?case by (simp add: spawnAttempts_def)
next
  case (Cons a as)
  have "spawnAttempts env (a # as) st = spawnAttempts env as (spawnAttempt env a st)"
    by (simp add: spawnAttempts_def)
  moreover have "blacklistedGroups (fst st) \<subseteq> blacklistedGroups (fst (spawnAttempt env a st))"
    unfolding spawnAttempt_def by (rule spawnHandler_blacklist_grows)
  ultimately show ?case using Cons.IH [of "spawnAttempt env a st"] by auto
qed

text \<open>
  C9. A call of \<^verbatim>\<open>spawnHandler\<close> for a group that is not blacklisted and whose join fails
  adds the group to the blacklist and no handler to the endpoint; after it, whatever calls
  of \<^verbatim>\<open>spawnHandler\<close> follow in the process, a call for that group changes nothing. A call
  for a blacklisted group returns the state as it is: no handler data is allocated, no
  socket call is made, no thread is started. A call for another group does what it would do
  were the group not blacklisted. A call whose join succeeds and whose bind fails leaves
  the blacklist and the handlers as they are.
\<close>

theorem spawnHandler_blacklist:
  "(groupAddr \<notin> blacklistedGroups p \<and> joinRet \<noteq> 0 \<longrightarrow>
      blacklistedGroups (fst (spawnHandler env joinRet bindRet bindAddr groupAddr ipVersion (p, ep)))
        = insert groupAddr (blacklistedGroups p)
      \<and> snd (spawnHandler env joinRet bindRet bindAddr groupAddr ipVersion (p, ep)) = ep
      \<and> (\<forall>as joinRet' bindRet' bindAddr' ipVersion'.
            spawnHandler env joinRet' bindRet' bindAddr' groupAddr ipVersion'
              (spawnAttempts env as
                (spawnHandler env joinRet bindRet bindAddr groupAddr ipVersion (p, ep)))
            = spawnAttempts env as
                (spawnHandler env joinRet bindRet bindAddr groupAddr ipVersion (p, ep))))
   \<and> (groupAddr \<in> blacklistedGroups p \<longrightarrow>
        spawnHandler env joinRet bindRet bindAddr groupAddr ipVersion (p, ep) = (p, ep))
   \<and> (groupAddr' \<noteq> groupAddr \<longrightarrow>
        spawnHandler env joinRet bindRet bindAddr groupAddr' ipVersion
          (p\<lparr>blacklistedGroups := insert groupAddr (blacklistedGroups p)\<rparr>, ep)
        = (let st = spawnHandler env joinRet bindRet bindAddr groupAddr' ipVersion (p, ep)
           in ((fst st)\<lparr>blacklistedGroups := insert groupAddr (blacklistedGroups (fst st))\<rparr>,
               snd st)))
   \<and> (groupAddr \<notin> blacklistedGroups p \<and> joinRet = 0 \<and> bindRet \<noteq> 0 \<longrightarrow>
        blacklistedGroups (fst (spawnHandler env joinRet bindRet bindAddr groupAddr ipVersion (p, ep)))
          = blacklistedGroups p
        \<and> snd (spawnHandler env joinRet bindRet bindAddr groupAddr ipVersion (p, ep)) = ep)"
proof -
  have later: "spawnHandler env joinRet' bindRet' bindAddr' groupAddr ipVersion'
              (spawnAttempts env as
                (spawnHandler env joinRet bindRet bindAddr groupAddr ipVersion (p, ep)))
            = spawnAttempts env as
                (spawnHandler env joinRet bindRet bindAddr groupAddr ipVersion (p, ep))"
    if "groupAddr \<notin> blacklistedGroups p" "joinRet \<noteq> 0"
    for as joinRet' bindRet' bindAddr' ipVersion'
  proof -
    let ?st = "spawnHandler env joinRet bindRet bindAddr groupAddr ipVersion (p, ep)"
    have "groupAddr \<in> blacklistedGroups (fst ?st)"
      using that by (simp add: spawnHandler_def Let_def)
    then have "groupAddr \<in> blacklistedGroups (fst (spawnAttempts env as ?st))"
      using spawnAttempts_blacklist_grows [of ?st env as] by auto
    then show ?thesis by (rule spawnHandler_blacklisted)
  qed
  have other: "spawnHandler env joinRet bindRet bindAddr groupAddr' ipVersion
          (p\<lparr>blacklistedGroups := insert groupAddr (blacklistedGroups p)\<rparr>, ep)
        = (let st = spawnHandler env joinRet bindRet bindAddr groupAddr' ipVersion (p, ep)
           in ((fst st)\<lparr>blacklistedGroups := insert groupAddr (blacklistedGroups (fst st))\<rparr>,
               snd st))"
    if "groupAddr' \<noteq> groupAddr"
    using that by (auto simp: spawnHandler_def Let_def insert_absorb insert_commute)
  show ?thesis
    using later other by (simp add: spawnHandler_def Let_def)
qed

text \<open>
  Scenario C of the specification: the join of the IPv6 group fails; a later attempt for
  it does nothing, an attempt for the IPv4 group starts its handler; and a failed bind of
  the IPv4 group blacklists nothing.
\<close>

theorem spawnHandler_blacklist_witness:
  "SSDP_MULTICAST_ADDR_IPV6 \<notin> blacklistedGroups \<lparr>blacklistedGroups = {}, effects = []\<rparr>
   \<and> (1::int) \<noteq> 0
   \<and> spawnHandler exampleEnv 1 0 ''::'' SSDP_MULTICAST_ADDR_IPV6 6
        (\<lparr>blacklistedGroups = {}, effects = []\<rparr>, newEndpoint)
       = (\<lparr>blacklistedGroups = {SSDP_MULTICAST_ADDR_IPV6},
           effects = [NewData, MulticastJoin ''udp://[ff02::c]:1900'', DeleteData]\<rparr>, newEndpoint)
   \<and> SSDP_MULTICAST_ADDR_IPV6 \<in> blacklistedGroups \<lparr>blacklistedGroups = {SSDP_MULTICAST_ADDR_IPV6},
           effects = [NewData, MulticastJoin ''udp://[ff02::c]:1900'', DeleteData]\<rparr>
   \<and> spawnHandler exampleEnv 0 0 ''::'' SSDP_MULTICAST_ADDR_IPV6 6
        (\<lparr>blacklistedGroups = {SSDP_MULTICAST_ADDR_IPV6},
           effects = [NewData, MulticastJoin ''udp://[ff02::c]:1900'', DeleteData]\<rparr>, newEndpoint)
       = (\<lparr>blacklistedGroups = {SSDP_MULTICAST_ADDR_IPV6},
           effects = [NewData, MulticastJoin ''udp://[ff02::c]:1900'', DeleteData]\<rparr>, newEndpoint)
   \<and> SSDP_MULTICAST_ADDR_IPV4 \<noteq> SSDP_MULTICAST_ADDR_IPV6
   \<and> snd (spawnHandler exampleEnv 0 0 ''0.0.0.0'' SSDP_MULTICAST_ADDR_IPV4 4
        (\<lparr>blacklistedGroups = {SSDP_MULTICAST_ADDR_IPV6},
           effects = [NewData, MulticastJoin ''udp://[ff02::c]:1900'', DeleteData]\<rparr>, newEndpoint))
       = newEndpoint\<lparr>handlers := [handler4]\<rparr>
   \<and> SSDP_MULTICAST_ADDR_IPV4 \<notin> blacklistedGroups \<lparr>blacklistedGroups = {}, effects = []\<rparr>
   \<and> (0::int) = 0
   \<and> spawnHandler exampleEnv 0 1 ''0.0.0.0'' SSDP_MULTICAST_ADDR_IPV4 4
        (\<lparr>blacklistedGroups = {}, effects = []\<rparr>, newEndpoint)
       = (\<lparr>blacklistedGroups = {},
           effects = [NewData, MulticastJoin ''udp://239.255.255.250:1900'',
             Bind ''udp://0.0.0.0:1900'', DeleteData]\<rparr>, newEndpoint)"
  using spawnHandler_blacklist [where env = exampleEnv and groupAddr = SSDP_MULTICAST_ADDR_IPV6
      and groupAddr' = SSDP_MULTICAST_ADDR_IPV4 and joinRet = 1 and bindRet = 0
      and bindAddr = "''::''" and ipVersion = 6 and ep = newEndpoint
      and p = "\<lparr>blacklistedGroups = {}, effects = []\<rparr>"]
    spawnHandler_blacklist [where env = exampleEnv and groupAddr = SSDP_MULTICAST_ADDR_IPV6
      and groupAddr' = SSDP_MULTICAST_ADDR_IPV4 and joinRet = 0 and bindRet = 0
      and bindAddr = "''0.0.0.0''" and ipVersion = 4 and ep = newEndpoint
      and p = "\<lparr>blacklistedGroups = {SSDP_MULTICAST_ADDR_IPV6},
           effects = [NewData, MulticastJoin ''udp://[ff02::c]:1900'', DeleteData]\<rparr>"]
    spawnHandler_blacklist [where env = exampleEnv and groupAddr = SSDP_MULTICAST_ADDR_IPV4
      and groupAddr' = SSDP_MULTICAST_ADDR_IPV6 and joinRet = 0 and bindRet = 1
      and bindAddr = "''0.0.0.0''" and ipVersion = 4 and ep = newEndpoint
      and p = "\<lparr>blacklistedGroups = {}, effects = []\<rparr>"]
  by (simp add: spawnHandler_def Let_def SSDP_MULTICAST_ADDR_IPV6_def SSDP_MULTICAST_ADDR_IPV4_def
      SSDP_UDP_PORT_NUMBER_def exampleEnv_def simpleToString_def handler4_def newEndpoint_def)

subsection \<open>The registration flag\<close>

lemma serviceRegistered_spawnHandler:
  "serviceRegistered (snd (spawnHandler env joinRet bindRet bindAddr groupAddr ipVersion st))
     = serviceRegistered (snd st)"
  by (simp add: spawnHandler_def Let_def)

lemma serviceRegistered_perform:
  "serviceRegistered (perform env op ep) = (serviceRegistered ep \<or> isRegisterService op)"
  by (cases op)
     (simp_all add: registerService_def enablePeriodicSearch_def enablePeriodicNotify_def Let_def
        split: sum.splits)

lemma serviceRegistered_fold_perform:
  "serviceRegistered ep \<Longrightarrow> serviceRegistered (fold (perform env) ops ep)"
  by (induction ops arbitrary: ep) (simp_all add: serviceRegistered_perform)

text \<open>
  C10. \<^verbatim>\<open>serviceRegistered\<close> is false in a new endpoint, \<^verbatim>\<open>registerService\<close> sets it, and
  after any public operation or loop iteration it is set exactly when it was set before or
  the operation is \<^verbatim>\<open>registerService\<close>. So once it is set it stays set through every run,
  and after every run the endpoint answers a search request for the well-known target with
  a response and an announcement, and \<^verbatim>\<open>sendNotifyHeader\<close> sends its announcement.
\<close>

theorem serviceRegistered_monotone:
  "serviceRegistered newEndpoint = False
   \<and> serviceRegistered (snd (SoapySSDPEndpoint_ctor env isIPv6Supported ret4 ret6 p)) = False
   \<and> serviceRegistered (registerService newUuid newService ep) = True
   \<and> serviceRegistered (perform env op ep) = (serviceRegistered ep \<or> isRegisterService op)
   \<and> (serviceRegistered ep \<longrightarrow> serviceRegistered (fold (perform env) ops ep))
   \<and> (serviceRegistered ep \<and> getField request ''MAN'' = MAN_DISCOVER
        \<and> getField request ''ST'' = SOAPY_REMOTE_TARGET \<longrightarrow>
        sock (handleSearchRequest env (fold (perform env) ops ep) tnow data request recvAddr)
          = sock data @ [(recvAddr, searchResponse env (fold (perform env) ops ep)),
              (groupURL data, notifyHeader env (fold (perform env) ops ep) data NTS_ALIVE)])
   \<and> (serviceRegistered ep \<longrightarrow>
        sock (sendNotifyHeader env (fold (perform env) ops ep) tnow data nts)
          = sock data @ [(groupURL data, notifyHeader env (fold (perform env) ops ep) data nts)])"
proof -
  have ctor: "serviceRegistered (snd (SoapySSDPEndpoint_ctor env isIPv6Supported ret4 ret6 p)) = False"
    by (simp add: SoapySSDPEndpoint_ctor_def Let_def serviceRegistered_spawnHandler newEndpoint_def)
  have nh: "notifyHeader env e (data\<lparr>sock := s\<rparr>) n = notifyHeader env e data n" for e s n
    by (simp add: notifyHeader_def)
  have answer: "sock (handleSearchRequest env e tnow data request recvAddr)
          = sock data @ [(recvAddr, searchResponse env e),
              (groupURL data, notifyHeader env e data NTS_ALIVE)]"
    if "serviceRegistered e" "getField request ''MAN'' = MAN_DISCOVER"
      "getField request ''ST'' = SOAPY_REMOTE_TARGET" for e
    using that by (simp add: handleSearchRequest_def sendNotifyHeader_def sendHeader_def nh Let_def)
  have notify: "sock (sendNotifyHeader env e tnow data nts)
          = sock data @ [(groupURL data, notifyHeader env e data nts)]"
    if "serviceRegistered e" for e
    using that by (simp add: sendNotifyHeader_def sendHeader_def)
  show ?thesis
    using ctor answer notify serviceRegistered_fold_perform [of ep env ops]
    by (simp add: serviceRegistered_perform registerService_def newEndpoint_def)
qed

text \<open>The registered endpoint of scenario A after a run of four operations.\<close>

theorem serviceRegistered_monotone_witness:
  "serviceRegistered endpointX
   \<and> getField searchFromPeer ''MAN'' = MAN_DISCOVER
   \<and> getField searchFromPeer ''ST'' = SOAPY_REMOTE_TARGET
   \<and> serviceRegistered (fold (perform exampleEnv)
        [EnablePeriodicNotify int False, GetServerURLs 4 True,
         HandlerLoopBody 0 (Received 100 byebyeFromPeer ''udp://10.0.0.2:1900'') 1 2 3 4,
         EnablePeriodicSearch int False] endpointX)
   \<and> map fst (sock (handleSearchRequest exampleEnv (fold (perform exampleEnv)
        [EnablePeriodicNotify int False, GetServerURLs 4 True,
         HandlerLoopBody 0 (Received 100 byebyeFromPeer ''udp://10.0.0.2:1900'') 1 2 3 4,
         EnablePeriodicSearch int False] endpointX) 9 handler4 searchFromPeer ''udp://10.0.0.2:50000''))
       = [''udp://10.0.0.2:50000'', ''udp://239.255.255.250:1900'']"
proof -
  have man: "getField searchFromPeer ''MAN'' = MAN_DISCOVER"
    and st: "getField searchFromPeer ''ST'' = SOAPY_REMOTE_TARGET"
    by (simp_all add: searchFromPeer_def searchHeader_def getField_def addField_def
        newHeader_def Let_def)
  have reg: "serviceRegistered endpointX"
    by (simp add: endpointX_def registerService_def)
  have h4: "sock handler4 = []" "groupURL handler4 = ''udp://239.255.255.250:1900''"
    by (simp_all add: handler4_def)
  from serviceRegistered_monotone [where ep = endpointX and env = exampleEnv
      and request = searchFromPeer and data = handler4 and tnow = 9
      and recvAddr = "''udp://10.0.0.2:50000''"
      and ops = "[EnablePeriodicNotify int False, GetServerURLs 4 True,
         HandlerLoopBody 0 (Received 100 byebyeFromPeer ''udp://10.0.0.2:1900'') 1 2 3 4,
         EnablePeriodicSearch int False]"] man st reg h4
  show ?thesis by simp
qed

end
